theory Spec2Isabelle
  imports Main "HOL-Library.Sublist"
begin

section \<open>Python values and exceptions\<close>

text \<open>
  The handlers of \<^verbatim>\<open>youtube_mcp_server/handlers.py\<close> and the dispatcher of
  \<^verbatim>\<open>youtube_mcp_server/server.py\<close> work on JSON-shaped Python values: tool arguments,
  tool results and the parsed \<^verbatim>\<open>tools.json\<close> document. A Python \<^verbatim>\<open>dict\<close> is an association
  list in insertion order. JSON numbers are modelled as integers; floating point values are
  outside this model.
\<close>

datatype json =
    JNull
  | JBool bool
  | JInt int
  | JStr string
  | JArr "json list"
  | JObj "(string \<times> json) list"

text \<open>
  A raised exception is a value: its class and the text that \<^verbatim>\<open>str(e)\<close> gives. The text of
  an exception raised by the interpreter or a library is kept abstract enough to name
  the failing operation. The text of a \<^verbatim>\<open>KeyError\<close> is the \<^verbatim>\<open>repr\<close> of the missing key: a
  string key between single quotes (the keys that this program looks up are plain
  words), the integer 0 as \<^verbatim>\<open>0\<close>. \<^verbatim>\<open>HttpError\<close> is the client library's; it carries its text and its
  attribute \<^verbatim>\<open>error_details\<close>. \<^verbatim>\<open>TranscriptsDisabled\<close>,
  \<^verbatim>\<open>NoTranscriptFound\<close> and \<^verbatim>\<open>VideoUnavailable\<close> are the three exceptions of the transcript
  library that \<^verbatim>\<open>get_transcript\<close> names; none of them is a subclass of another. Every
  other exception class is \<open>OtherException\<close>.
\<close>

datatype py_exn =
    ValueError string
  | TypeError string
  | AttributeError string
  | KeyError string
  | IndexError string
  | HttpError string json
  | TranscriptsDisabled string
  | NoTranscriptFound string
  | VideoUnavailable string
  | OtherException string

fun exn_str :: "py_exn \<Rightarrow> string" where
  "exn_str (ValueError m) = m"
| "exn_str (TypeError m) = m"
| "exn_str (AttributeError m) = m"
| "exn_str (KeyError m) = m"
| "exn_str (IndexError m) = m"
| "exn_str (HttpError m error_details) = m"
| "exn_str (TranscriptsDisabled m) = m"
| "exn_str (NoTranscriptFound m) = m"
| "exn_str (VideoUnavailable m) = m"
| "exn_str (OtherException m) = m"

text \<open>Python truthiness: \<^verbatim>\<open>not v\<close> is \<open>\<not> truthy v\<close>.\<close>

fun truthy :: "json \<Rightarrow> bool" where
  "truthy JNull = False"
| "truthy (JBool b) = b"
| "truthy (JInt i) = (i \<noteq> 0)"
| "truthy (JStr s) = (s \<noteq> [])"
| "truthy (JArr xs) = (xs \<noteq> [])"
| "truthy (JObj kvs) = (kvs \<noteq> [])"

subsection \<open>Strings\<close>

text \<open>
  \<^verbatim>\<open>str.strip()\<close> removes leading and trailing whitespace. Among the code points below
  256 Python's \<^verbatim>\<open>str.isspace\<close> holds for 9 to 13, 28 to 32, 133 and 160.
\<close>

definition is_space :: "char \<Rightarrow> bool" where
  "is_space c = ((of_char c :: nat) \<in> set [9, 10, 11, 12, 13, 28, 29, 30, 31, 32, 133, 160])"

definition strip :: "string \<Rightarrow> string" where
  "strip s = rev (dropWhile is_space (rev (dropWhile is_space s)))"

text \<open>The regular expression class \<^verbatim>\<open>\d\<close>: below code point 256 the decimal digits are 0 to 9.\<close>

definition is_digit :: "char \<Rightarrow> bool" where
  "is_digit c = (c \<in> set ''0123456789'')"

definition digit_val :: "char \<Rightarrow> int" where
  "digit_val c = int (of_char c) - 48"

definition digits_value :: "string \<Rightarrow> int" where
  "digits_value ds = foldl (\<lambda>a c. 10 * a + digit_val c) 0 ds"

text \<open>
  The decimal numeral of a natural number, as Python writes it.
\<close>

definition digit_char :: "nat \<Rightarrow> char" where
  "digit_char d = ''0123456789'' ! d"

fun decimal :: "nat \<Rightarrow> string" where
  "decimal n = (if n < 10 then [digit_char n] else decimal (n div 10) @ [digit_char (n mod 10)])"

declare decimal.simps [simp del]

text \<open>
  \<^verbatim>\<open>int(s)\<close> on a string. The only strings this program converts are the groups captured by
  \<^verbatim>\<open>(\d+)\<close>. On a non-empty string of decimal digits the result is its decimal value, unless
  the string has more digits than the interpreter's limit for the conversion of strings
  to integers (\<^verbatim>\<open>sys.int_info.default_max_str_digits\<close>, 4300, leading zeros counted):
  then \<^verbatim>\<open>int\<close> raises \<^verbatim>\<open>ValueError\<close>. Every other string is reported as the \<^verbatim>\<open>ValueError\<close>
  that \<^verbatim>\<open>int\<close> raises on an invalid literal; signs, surrounding whitespace and underscores,
  which \<^verbatim>\<open>int\<close> also accepts, never reach it here.
\<close>

definition max_str_digits :: nat where
  "max_str_digits = 4300"

definition py_int :: "string \<Rightarrow> py_exn + int" where
  "py_int s =
     (if s \<noteq> [] \<and> list_all is_digit s
      then
        (if max_str_digits < length s
         then Inl (ValueError
                (''Exceeds the limit (4300 digits) for integer string conversion: value has '' @
                 decimal (length s) @
                 '' digits; use sys.set_int_max_str_digits() to increase the limit''))
         else Inr (digits_value s))
      else Inl (ValueError ''invalid literal for int() with base 10''))"

section \<open>Regular expressions with backtracking\<close>

text \<open>
  \<^verbatim>\<open>parse_duration\<close> matches its argument with
  \<^verbatim>\<open>re.match(r"PT(?:(\d+)H)?(?:(\d+)M)?(?:(\d+)S)?", duration_str)\<close>.
  The fragment of the regular expression language that the pattern uses is embedded
  with the semantics of Python's backtracking matcher: alternatives are tried in
  priority order (a greedy quantifier tries the longest repetition first, an optional
  part is tried before it is skipped) and the first overall success is the match.
  The matcher is written in continuation-passing style; the continuation is the rest
  of the pattern, and a failing continuation makes the matcher backtrack.
\<close>

datatype regex =
    Chars string             \<comment> \<open>literal characters\<close>
  | DigitPlus                \<comment> \<open>\<^verbatim>\<open>\d+\<close>, greedy\<close>
  | Seq regex regex          \<comment> \<open>concatenation\<close>
  | Maybe regex              \<comment> \<open>\<^verbatim>\<open>(?: ... )?\<close>, greedy\<close>
  | Capture nat regex        \<comment> \<open>capturing group with its number\<close>

type_synonym groups = "nat \<rightharpoonup> string"

fun first_some :: "('a \<Rightarrow> 'b option) \<Rightarrow> 'a list \<Rightarrow> 'b option" where
  "first_some f [] = None"
| "first_some f (x # xs) = (case f x of Some r \<Rightarrow> Some r | None \<Rightarrow> first_some f xs)"

fun rmatch :: "regex \<Rightarrow> string \<Rightarrow> groups \<Rightarrow> (string \<Rightarrow> groups \<Rightarrow> groups option) \<Rightarrow> groups option" where
  "rmatch (Chars cs) s g k = (if prefix cs s then k (drop (length cs) s) g else None)"
| "rmatch DigitPlus s g k =
     first_some (\<lambda>n. k (drop n s) g) (rev [1 ..< Suc (length (takeWhile is_digit s))])"
| "rmatch (Seq a b) s g k = rmatch a s g (\<lambda>s' g'. rmatch b s' g' k)"
| "rmatch (Maybe a) s g k = (case rmatch a s g k of Some r \<Rightarrow> Some r | None \<Rightarrow> k s g)"
| "rmatch (Capture i a) s g k =
     rmatch a s g (\<lambda>s' g'. k s' (g'(i \<mapsto> take (length s - length s') s)))"

text \<open>\<^verbatim>\<open>re.match\<close>: the pattern must match at the start of the string; the rest is free.\<close>

definition re_match :: "regex \<Rightarrow> string \<Rightarrow> groups option" where
  "re_match r s = rmatch r s Map.empty (\<lambda>s' g. Some g)"

section \<open>\<^verbatim>\<open>parse_duration\<close>\<close>

definition duration_pattern :: regex where
  "duration_pattern =
     Seq (Chars ''PT'')
       (Seq (Maybe (Seq (Capture 1 DigitPlus) (Chars ''H'')))
         (Seq (Maybe (Seq (Capture 2 DigitPlus) (Chars ''M'')))
              (Maybe (Seq (Capture 3 DigitPlus) (Chars ''S'')))))"

text \<open>\<^verbatim>\<open>int(match.group(i)) if match.group(i) else 0\<close>\<close>

definition group_int :: "groups \<Rightarrow> nat \<Rightarrow> py_exn + int" where
  "group_int m i =
     (case m i of
        None \<Rightarrow> Inr 0
      | Some t \<Rightarrow> if t = [] then Inr 0 else py_int t)"

definition parse_duration :: "string \<Rightarrow> py_exn + int" where
  "parse_duration duration_str =
     (if duration_str = [] then Inr 0
      else
        (case re_match duration_pattern duration_str of
           None \<Rightarrow> Inr 0
         | Some m \<Rightarrow>
             (case group_int m 1 of
                Inl e \<Rightarrow> Inl e
              | Inr hours \<Rightarrow>
                  (case group_int m 2 of
                     Inl e \<Rightarrow> Inl e
                   | Inr minutes \<Rightarrow>
                       (case group_int m 3 of
                          Inl e \<Rightarrow> Inl e
                        | Inr seconds \<Rightarrow> Inr (hours * 3600 + minutes * 60 + seconds))))))"


subsection \<open>The textual form of a duration\<close>

text \<open>
  The form \<^verbatim>\<open>PT{h}H{m}M{s}S\<close>: each of the three components is optional and, when present,
  is a non-empty string of decimal digits followed by its letter.
\<close>

definition digit_string :: "string \<Rightarrow> bool" where
  "digit_string ds = (ds \<noteq> [] \<and> list_all is_digit ds)"

fun component :: "string option \<Rightarrow> char \<Rightarrow> string" where
  "component None c = []"
| "component (Some ds) c = ds @ [c]"

fun component_ok :: "string option \<Rightarrow> bool" where
  "component_ok None = True"
| "component_ok (Some ds) = digit_string ds"

fun component_value :: "string option \<Rightarrow> int" where
  "component_value None = 0"
| "component_value (Some ds) = digits_value ds"

definition duration_text :: "string option \<Rightarrow> string option \<Rightarrow> string option \<Rightarrow> string" where
  "duration_text h m s = ''PT'' @ component h CHR ''H'' @ component m CHR ''M'' @ component s CHR ''S''"

text \<open>
  What one optional group \<^verbatim>\<open>(?:(\d+)c)?\<close> does to the remaining input and the groups when
  the rest of the pattern cannot fail: it consumes the longest run of digits and the
  letter \<open>c\<close> after it, or nothing at all.
\<close>

definition take_component :: "char \<Rightarrow> nat \<Rightarrow> string \<times> groups \<Rightarrow> string \<times> groups" where
  "take_component c i sg =
     (let s = fst sg; g = snd sg; ds = takeWhile is_digit s; rest = dropWhile is_digit s
      in if ds \<noteq> [] \<and> rest \<noteq> [] \<and> hd rest = c then (tl rest, g(i \<mapsto> ds)) else (s, g))"

definition duration_groups :: "string \<Rightarrow> groups" where
  "duration_groups r =
     snd (take_component CHR ''S'' 3 (take_component CHR ''M'' 2 (take_component CHR ''H'' 1 (r, Map.empty))))"

text \<open>The length of the longest run of consecutive decimal digits in a string.\<close>

fun max_digit_run :: "string \<Rightarrow> nat" where
  "max_digit_run [] = 0"
| "max_digit_run (c # cs) = max (length (takeWhile is_digit (c # cs))) (max_digit_run cs)"

text \<open>
  Every captured group is a non-empty string of digits, and no longer than the longest
  run of digits of the string \<open>d\<close> that was matched.
\<close>

definition bounded_groups :: "string \<Rightarrow> groups \<Rightarrow> bool" where
  "bounded_groups d g =
     (\<forall>i t. g i = Some t \<longrightarrow> t \<noteq> [] \<and> list_all is_digit t \<and> length t \<le> max_digit_run d)"

text \<open>
  The form \<^verbatim>\<open>PT{h}H{m}M{s}S\<close> for numbers: each component, when present, is the decimal
  numeral of a natural number; the component can be converted when the numeral has no
  more digits than the limit.
\<close>

definition duration_of :: "nat option \<Rightarrow> nat option \<Rightarrow> nat option \<Rightarrow> string" where
  "duration_of h m s =
     duration_text (map_option decimal h) (map_option decimal m) (map_option decimal s)"

fun amount :: "nat option \<Rightarrow> int" where
  "amount None = 0"
| "amount (Some n) = int n"

fun writable :: "nat option \<Rightarrow> bool" where
  "writable None = True"
| "writable (Some n) = (length (decimal n) \<le> max_str_digits)"

fun component_short :: "string option \<Rightarrow> bool" where
  "component_short None = True"
| "component_short (Some ds) = (length ds \<le> max_str_digits)"

section \<open>Dynamic operations on values\<close>

text \<open>
  The handlers receive whatever the caller sent: \<^verbatim>\<open>handle_call_tool\<close> passes the arguments
  on unchecked, and the type annotations of the handlers are not enforced at run time.
  The operations below are Python's, on the JSON-shaped values, with the
  \<^verbatim>\<open>TypeError\<close> or \<^verbatim>\<open>KeyError\<close> that Python raises where the value has the wrong shape.
\<close>

definition ebind :: "py_exn + 'a \<Rightarrow> ('a \<Rightarrow> py_exn + 'b) \<Rightarrow> py_exn + 'b" where
  "ebind x f = (case x of Inl e \<Rightarrow> Inl e | Inr v \<Rightarrow> f v)"

fun emap :: "('a \<Rightarrow> py_exn + 'b) \<Rightarrow> 'a list \<Rightarrow> py_exn + 'b list" where
  "emap f [] = Inr []"
| "emap f (x # xs) = ebind (f x) (\<lambda>y. ebind (emap f xs) (\<lambda>ys. Inr (y # ys)))"

fun py_len :: "json \<Rightarrow> py_exn + nat" where
  "py_len (JStr s) = Inr (length s)"
| "py_len (JArr xs) = Inr (length xs)"
| "py_len (JObj kvs) = Inr (length kvs)"
| "py_len v = Inl (TypeError ''object has no len()'')"

text \<open>Iteration: a list gives its elements, a string its characters, a dict its keys.\<close>

fun py_iter :: "json \<Rightarrow> py_exn + json list" where
  "py_iter (JStr s) = Inr (map (\<lambda>c. JStr [c]) s)"
| "py_iter (JArr xs) = Inr xs"
| "py_iter (JObj kvs) = Inr (map (\<lambda>kv. JStr (fst kv)) kvs)"
| "py_iter v = Inl (TypeError ''object is not iterable'')"

text \<open>\<^verbatim>\<open>k in v\<close> for a string \<open>k\<close>: membership in a list, substring of a string, key of a dict.\<close>

definition is_substring :: "string \<Rightarrow> string \<Rightarrow> bool" where
  "is_substring k s = (\<exists>n \<in> set [0 ..< Suc (length s)]. prefix k (drop n s))"

fun py_contains :: "json \<Rightarrow> string \<Rightarrow> py_exn + bool" where
  "py_contains (JStr s) k = Inr (is_substring k s)"
| "py_contains (JArr xs) k = Inr (JStr k \<in> set xs)"
| "py_contains (JObj kvs) k = Inr (k \<in> fst ` set kvs)"
| "py_contains v k = Inl (TypeError ''argument is not iterable'')"

text \<open>\<^verbatim>\<open>v[k]\<close> for a string \<open>k\<close>.\<close>

fun py_getitem :: "json \<Rightarrow> string \<Rightarrow> py_exn + json" where
  "py_getitem (JObj kvs) k =
     (case map_of kvs k of
        None \<Rightarrow> Inl (KeyError ([CHR 0x27] @ k @ [CHR 0x27]))
      | Some v \<Rightarrow> Inr v)"
| "py_getitem (JStr s) k = Inl (TypeError ''string indices must be integers'')"
| "py_getitem (JArr xs) k = Inl (TypeError ''list indices must be integers or slices'')"
| "py_getitem v k = Inl (TypeError ''object is not subscriptable'')"

text \<open>
  \<^verbatim>\<open>d[k] = v\<close> on a dict keeps the position of an existing key and appends a new one.
\<close>

fun dict_set :: "(string \<times> json) list \<Rightarrow> string \<Rightarrow> json \<Rightarrow> (string \<times> json) list" where
  "dict_set [] k v = [(k, v)]"
| "dict_set ((k', v') # kvs) k v = (if k' = k then (k, v) # kvs else (k', v') # dict_set kvs k v)"

fun py_setitem :: "json \<Rightarrow> string \<Rightarrow> json \<Rightarrow> py_exn + json" where
  "py_setitem (JObj kvs) k v = Inr (JObj (dict_set kvs k v))"
| "py_setitem w k v = Inl (TypeError ''object does not support item assignment'')"

text \<open>\<^verbatim>\<open>",".join(v)\<close>: every item of the iteration must be a string.\<close>

fun the_str :: "json \<Rightarrow> py_exn + string" where
  "the_str (JStr s) = Inr s"
| "the_str v = Inl (TypeError ''sequence item: expected str instance'')"

fun join_with :: "string \<Rightarrow> string list \<Rightarrow> string" where
  "join_with sep [] = []"
| "join_with sep [x] = x"
| "join_with sep (x # y # ys) = x @ sep @ join_with sep (y # ys)"

definition py_join :: "string \<Rightarrow> json \<Rightarrow> py_exn + string" where
  "py_join sep v = ebind (py_iter v) (\<lambda>items. ebind (emap the_str items) (\<lambda>strs. Inr (join_with sep strs)))"

text \<open>Elements of a \<^verbatim>\<open>set\<close> must be hashable: lists and dicts are not.\<close>

fun hashable :: "json \<Rightarrow> bool" where
  "hashable (JArr xs) = False"
| "hashable (JObj kvs) = False"
| "hashable v = True"

fun unhashable_error :: "json \<Rightarrow> py_exn" where
  "unhashable_error (JObj kvs) = TypeError (''unhashable type: '' @ [CHR 0x27] @ ''dict'' @ [CHR 0x27])"
| "unhashable_error v = TypeError (''unhashable type: '' @ [CHR 0x27] @ ''list'' @ [CHR 0x27])"

text \<open>
  \<^verbatim>\<open>set(v)\<close> hashes the items in order and raises at the first one that is not hashable;
  \<open>None\<close> here says that it raises nothing.
\<close>

definition set_error :: "json list \<Rightarrow> py_exn option" where
  "set_error items = map_option unhashable_error (find (\<lambda>p. \<not> hashable p) items)"

text \<open>
  \<^verbatim>\<open>parse_duration\<close> applied to an arbitrary value, as \<^verbatim>\<open>get_videos\<close> applies it to
  a field of the response: a falsy value returns 0 at the first test, and \<^verbatim>\<open>re.match\<close>
  raises \<^verbatim>\<open>TypeError\<close> on a truthy value that is not a string.
\<close>

definition parse_duration_value :: "json \<Rightarrow> py_exn + int" where
  "parse_duration_value v =
     (if \<not> truthy v then Inr 0
      else (case v of
              JStr s \<Rightarrow> parse_duration s
            | _ \<Rightarrow> Inl (TypeError ''expected string or bytes-like object'')))"

section \<open>\<^verbatim>\<open>get_videos\<close>\<close>

text \<open>
  The world outside the process: the environment variable \<^verbatim>\<open>YOUTUBE_API_KEY\<close>, what
  \<^verbatim>\<open>googleapiclient.discovery.build\<close> does (\<open>None\<close>: it returns a client), and what
  \<^verbatim>\<open>youtube.videos().list(part=..., id=...).execute()\<close> answers. The calls a handler makes
  to the client library are recorded in order.
\<close>

record env =
  YOUTUBE_API_KEY :: "string option"
  build_raises :: "py_exn option"
  videos_list_execute :: "string \<Rightarrow> string \<Rightarrow> py_exn + json"

datatype api_call = Build | VideosList string string

definition validate_youtube_api_key :: "env \<Rightarrow> py_exn + unit" where
  "validate_youtube_api_key e =
     (case YOUTUBE_API_KEY e of
        None \<Rightarrow> Inl (ValueError ''YOUTUBE_API_KEY environment variable is required'')
      | Some k \<Rightarrow>
          if k = [] then Inl (ValueError ''YOUTUBE_API_KEY environment variable is required'')
          else Inr ())"

definition build_youtube_service :: "env \<Rightarrow> (py_exn + unit) \<times> api_call list" where
  "build_youtube_service e =
     (case validate_youtube_api_key e of
        Inl x \<Rightarrow> (Inl x, [])
      | Inr u \<Rightarrow>
          (case build_raises e of
             Some x \<Rightarrow> (Inl x, [Build])
           | None \<Rightarrow> (Inr (), [Build])))"

definition valid_parts :: "string list" where
  "valid_parts =
     [''snippet'', ''contentDetails'', ''statistics'', ''status'', ''player'',
      ''recordingDetails'', ''fileDetails'', ''processingDetails'', ''suggestions'',
      ''liveStreamingDetails'', ''localizations'', ''topicDetails'']"

text \<open>
  The test on one entry of \<^verbatim>\<open>ids\<close>:
  \<^verbatim>\<open>not video_id or not isinstance(video_id, str) or not video_id.strip()\<close>.
\<close>

definition bad_video_id :: "json \<Rightarrow> bool" where
  "bad_video_id video_id =
     (\<not> truthy video_id \<or>
      (case video_id of JStr s \<Rightarrow> \<not> truthy (JStr (strip s)) | _ \<Rightarrow> True))"

text \<open>
  The loop over \<^verbatim>\<open>videos_response["items"]\<close>: with \<^verbatim>\<open>contentDetails\<close> requested and
  present, a \<^verbatim>\<open>duration\<close> field gets \<^verbatim>\<open>durationSeconds\<close> beside it.
\<close>

definition add_duration_seconds :: "json \<Rightarrow> json \<Rightarrow> py_exn + json" where
  "add_duration_seconds parts video =
     ebind (py_contains parts ''contentDetails'') (\<lambda>requested.
       if \<not> requested then Inr video
       else ebind (py_contains video ''contentDetails'') (\<lambda>present.
         if \<not> present then Inr video
         else ebind (py_getitem video ''contentDetails'') (\<lambda>details.
           ebind (py_contains details ''duration'') (\<lambda>has_duration.
             if \<not> has_duration then Inr video
             else ebind (py_getitem details ''duration'') (\<lambda>duration.
               ebind (parse_duration_value duration) (\<lambda>seconds.
                 ebind (py_setitem details ''durationSeconds'' (JInt seconds)) (\<lambda>details'.
                   py_setitem video ''contentDetails'' details')))))))"

definition videos_result :: "json list \<Rightarrow> json" where
  "videos_result items =
     JObj [(''items'', JArr items),
           (''pageInfo'', JObj [(''totalResults'', JInt (int (length items))),
                                (''resultsPerPage'', JInt (int (length items)))])]"

text \<open>The body of the \<^verbatim>\<open>try\<close> block, before the \<^verbatim>\<open>except\<close> clauses.\<close>

definition get_videos_try :: "env \<Rightarrow> json \<Rightarrow> json \<Rightarrow> (py_exn + json) \<times> api_call list" where
  "get_videos_try e ids parts =
     (case build_youtube_service e of
        (Inl x, calls) \<Rightarrow> (Inl x, calls)
      | (Inr youtube, calls) \<Rightarrow>
          (case py_join '','' parts of
             Inl x \<Rightarrow> (Inl x, calls)
           | Inr part \<Rightarrow>
               (case py_join '','' ids of
                  Inl x \<Rightarrow> (Inl x, calls)
                | Inr ident \<Rightarrow>
                    (ebind (videos_list_execute e part ident) (\<lambda>videos_response.
                       ebind (py_getitem videos_response ''items'') (\<lambda>response_items.
                         ebind (py_iter response_items) (\<lambda>videos.
                           ebind (emap (add_duration_seconds parts) videos) (\<lambda>items.
                             Inr (videos_result items))))),
                     calls @ [VideosList part ident]))))"

text \<open>
  The \<^verbatim>\<open>except\<close> clause for \<^verbatim>\<open>HttpError\<close> first computes
  \<^verbatim>\<open>error_details = e.error_details[0] if e.error_details else {}\<close> and
  \<^verbatim>\<open>error_message = error_details.get("message", str(e))\<close>. The attribute \<^verbatim>\<open>error_details\<close>
  can be empty, a list of dicts or a string; an exception raised by these two lines
  leaves the handler as it is, since the clauses of one \<^verbatim>\<open>try\<close> statement do not catch
  for each other.
\<close>

fun first_item :: "json \<Rightarrow> py_exn + json" where
  "first_item (JArr (x # xs)) = Inr x"
| "first_item (JArr []) = Inl (IndexError ''list index out of range'')"
| "first_item (JStr (c # cs)) = Inr (JStr [c])"
| "first_item (JStr []) = Inl (IndexError ''string index out of range'')"
| "first_item (JObj kvs) = Inl (KeyError ''0'')"
| "first_item v = Inl (TypeError ''object is not subscriptable'')"

fun dict_get :: "json \<Rightarrow> string \<Rightarrow> json \<Rightarrow> py_exn + json" where
  "dict_get (JObj kvs) k fallback = Inr (case map_of kvs k of None \<Rightarrow> fallback | Some v \<Rightarrow> v)"
| "dict_get v k fallback = Inl (AttributeError ''object has no attribute get'')"

definition http_error_message :: "string \<Rightarrow> json \<Rightarrow> py_exn + json" where
  "http_error_message text error_details =
     ebind (if truthy error_details then first_item error_details else Inr (JObj []))
       (\<lambda>details. dict_get details ''message'' (JStr text))"

text \<open>
  The \<^verbatim>\<open>except\<close> clauses: an \<^verbatim>\<open>HttpError\<close> becomes a \<^verbatim>\<open>ValueError\<close> with the message
  computed from it, every other exception one with its own text. Where the message found
  in the details is not a string, the text that formatting it gives is not modelled and
  the text of the \<^verbatim>\<open>ValueError\<close> stops after its first words.
\<close>

fun get_videos_except :: "py_exn \<Rightarrow> py_exn" where
  "get_videos_except (HttpError text error_details) =
     (case http_error_message text error_details of
        Inl x \<Rightarrow> x
      | Inr (JStr error_message) \<Rightarrow> ValueError (''YouTube API error: '' @ error_message)
      | Inr v \<Rightarrow> ValueError ''YouTube API error: '')"
| "get_videos_except x = ValueError (''Unexpected error during video retrieval: '' @ exn_str x)"

text \<open>
  \<^verbatim>\<open>get_videos(ids, parts)\<close>, with the calls made to the client library. The checks before
  the \<^verbatim>\<open>try\<close> block raise directly. The message for invalid parts quotes both sets in
  Python's set notation, whose order of elements is not fixed; only its first words are
  kept.
\<close>

definition get_videos :: "env \<Rightarrow> json \<Rightarrow> json \<Rightarrow> (py_exn + json) \<times> api_call list" where
  "get_videos e ids parts =
     (if \<not> truthy ids then (Inl (ValueError ''ids parameter is required and cannot be empty''), [])
      else
        (case py_len ids of
           Inl x \<Rightarrow> (Inl x, [])
         | Inr n \<Rightarrow>
             if n > 50 then (Inl (ValueError ''Maximum 50 video IDs allowed per request''), [])
             else
               (case py_iter ids of
                  Inl x \<Rightarrow> (Inl x, [])
                | Inr entries \<Rightarrow>
                    if list_ex bad_video_id entries
                    then (Inl (ValueError ''All video IDs must be non-empty strings''), [])
                    else
                      (let parts = (if parts = JNull then JArr [JStr ''snippet''] else parts) in
                       (case py_iter parts of
                          Inl x \<Rightarrow> (Inl x, [])
                        | Inr names \<Rightarrow>
                            (case set_error names of
                               Some x \<Rightarrow> (Inl x, [])
                             | None \<Rightarrow>
                                 if list_ex (\<lambda>p. p \<notin> JStr ` set valid_parts) names
                                 then (Inl (ValueError ''Invalid parts''), [])
                                 else
                                   (case get_videos_try e ids parts of
                                      (Inl x, calls) \<Rightarrow> (Inl (get_videos_except x), calls)
                                    | (Inr result, calls) \<Rightarrow> (Inr result, calls))))))))"

text \<open>
  \<^verbatim>\<open>tool_function(**arguments)\<close> for \<^verbatim>\<open>get_videos(ids, parts=None)\<close>: an unknown keyword
  or a missing \<^verbatim>\<open>ids\<close> is a \<^verbatim>\<open>TypeError\<close> of the call itself; an omitted \<^verbatim>\<open>parts\<close> is
  \<^verbatim>\<open>None\<close>.
\<close>

type_synonym arguments = "(string \<times> json) list"

type_synonym handler = "arguments \<Rightarrow> py_exn + json"

definition get_videos_tool :: "env \<Rightarrow> handler" where
  "get_videos_tool e arguments =
     (if list_ex (\<lambda>kv. fst kv \<notin> set [''ids'', ''parts'']) arguments
      then Inl (TypeError ''get_videos() got an unexpected keyword argument'')
      else
        (case map_of arguments ''ids'' of
           None \<Rightarrow> Inl (TypeError ''get_videos() missing 1 required positional argument'')
         | Some ids \<Rightarrow>
             fst (get_videos e ids (case map_of arguments ''parts'' of None \<Rightarrow> JNull | Some p \<Rightarrow> p))))"

section \<open>The dispatcher\<close>

text \<open>
  \<^verbatim>\<open>TOOL_FUNCTIONS\<close> maps the three tool names to the handler functions. The dispatcher
  treats a handler as an opaque callable, so the handlers are parameters here.
\<close>

definition TOOL_FUNCTIONS :: "handler \<Rightarrow> handler \<Rightarrow> handler \<Rightarrow> (string \<times> handler) list" where
  "TOOL_FUNCTIONS search_videos_fn get_videos_fn get_transcript_fn =
     [(''search_videos'', search_videos_fn),
      (''get_videos'', get_videos_fn),
      (''get_transcript'', get_transcript_fn)]"

text \<open>
  \<^verbatim>\<open>handle_call_tool(name, arguments)\<close> over a handler registry. The second component of
  the result is the list of handler invocations made, each with the arguments passed.
  The function is registered with the MCP library by the decorator \<^verbatim>\<open>@server.call_tool()\<close>;
  what that library does with a request before it calls the function, and with the value
  or exception that comes back, is not code of this repository and is not modelled.
\<close>

definition handle_call_tool ::
  "(string \<times> handler) list \<Rightarrow> string \<Rightarrow> arguments option \<Rightarrow>
     (py_exn + json) \<times> (string \<times> arguments) list" where
  "handle_call_tool tool_functions name arguments =
     (case map_of tool_functions name of
        None \<Rightarrow> (Inl (ValueError (''Unknown tool: '' @ name)), [])
      | Some tool_function \<Rightarrow>
          (let arguments = (case arguments of None \<Rightarrow> [] | Some a \<Rightarrow> a) in
           (case tool_function arguments of
              Inr result \<Rightarrow> (Inr result, [(name, arguments)])
            | Inl x \<Rightarrow>
                (Inl (ValueError (''Tool execution error: '' @ exn_str x)), [(name, arguments)]))))"

section \<open>\<^verbatim>\<open>get_transcript\<close>\<close>

text \<open>
  The transcript source. A track has a language code, says whether it was generated,
  and \<^verbatim>\<open>fetch()\<close> either raises or gives the entries; \<^verbatim>\<open>api.list(video_id)\<close> either raises
  or gives the tracks of the video, in the order in which iterating the transcript list
  yields them. The start and the duration of an entry are floating point numbers; their
  type is left open, and \<^verbatim>\<open>float(...)\<close> on them is the identity.
\<close>

record 'n entry =
  text_of :: string
  start :: 'n
  duration :: 'n

record 'n track =
  language_code :: string
  is_generated :: bool
  fetch :: "py_exn + 'n entry list"

text \<open>
  \<^verbatim>\<open>transcript_list.find_transcript([code])\<close> is the transcript library's: it looks for
  the language code among the manually created transcripts first and among the generated
  ones after that, and raises \<^verbatim>\<open>NoTranscriptFound\<close> (here \<open>None\<close>, as the handler catches it
  at once) when neither has it.
\<close>

definition find_transcript :: "'n track list \<Rightarrow> string \<Rightarrow> 'n track option" where
  "find_transcript transcript_list code =
     (case find (\<lambda>t. \<not> is_generated t \<and> language_code t = code) transcript_list of
        Some t \<Rightarrow> Some t
      | None \<Rightarrow> find (\<lambda>t. is_generated t \<and> language_code t = code) transcript_list)"

text \<open>
  The four attempts of \<^verbatim>\<open>get_transcript\<close>, in order; each is made only when \<^verbatim>\<open>transcript\<close>
  is still \<^verbatim>\<open>None\<close>. The result is the pair of \<^verbatim>\<open>transcript\<close> and \<^verbatim>\<open>language_code\<close>.
\<close>

definition try_requested :: "'n track list \<Rightarrow> string option \<Rightarrow> ('n track \<times> string) option" where
  "try_requested transcript_list language =
     (case language of
        None \<Rightarrow> None
      | Some l \<Rightarrow>
          if l \<noteq> [] \<and> strip l \<noteq> []
          then map_option (\<lambda>t. (t, strip l)) (find_transcript transcript_list (strip l))
          else None)"

definition try_english :: "'n track list \<Rightarrow> ('n track \<times> string) option" where
  "try_english transcript_list = map_option (\<lambda>t. (t, ''en'')) (find_transcript transcript_list ''en'')"

definition try_manual :: "'n track list \<Rightarrow> ('n track \<times> string) option" where
  "try_manual transcript_list =
     map_option (\<lambda>t. (t, language_code t)) (find (\<lambda>t. \<not> is_generated t) transcript_list)"

definition try_any :: "'n track list \<Rightarrow> ('n track \<times> string) option" where
  "try_any transcript_list =
     (case transcript_list of [] \<Rightarrow> None | t # ts \<Rightarrow> Some (t, language_code t))"

definition select_transcript :: "'n track list \<Rightarrow> string option \<Rightarrow> ('n track \<times> string) option" where
  "select_transcript transcript_list language =
     (case try_requested transcript_list language of
        Some r \<Rightarrow> Some r
      | None \<Rightarrow>
          (case try_english transcript_list of
             Some r \<Rightarrow> Some r
           | None \<Rightarrow>
               (case try_manual transcript_list of
                  Some r \<Rightarrow> Some r
                | None \<Rightarrow> try_any transcript_list)))"

text \<open>
  The dict that \<^verbatim>\<open>get_transcript\<close> returns, with its keys \<^verbatim>\<open>videoId\<close>, \<^verbatim>\<open>transcript\<close>,
  \<^verbatim>\<open>available\<close> and \<^verbatim>\<open>language\<close>.
\<close>

record 'n transcript_result =
  r_videoId :: string
  r_transcript :: "'n entry list"
  r_available :: bool
  r_language :: "string option"

definition not_available :: "string \<Rightarrow> 'n transcript_result" where
  "not_available video_id =
     \<lparr>r_videoId = video_id, r_transcript = [], r_available = False, r_language = None\<rparr>"

text \<open>The body of the \<^verbatim>\<open>try\<close> block.\<close>

definition get_transcript_try ::
  "(string \<Rightarrow> py_exn + 'n track list) \<Rightarrow> string \<Rightarrow> string option \<Rightarrow> py_exn + 'n transcript_result" where
  "get_transcript_try api_list video_id language =
     (case api_list video_id of
        Inl x \<Rightarrow> Inl x
      | Inr transcript_list \<Rightarrow>
          (case select_transcript transcript_list language of
             None \<Rightarrow> Inr (not_available video_id)
           | Some (transcript, language_code') \<Rightarrow>
               (case fetch transcript of
                  Inl x \<Rightarrow> Inl x
                | Inr transcript_data \<Rightarrow>
                    Inr \<lparr>r_videoId = video_id,
                         r_transcript =
                           map (\<lambda>entry. \<lparr>text_of = text_of entry, start = start entry,
                                          duration = duration entry\<rparr>) transcript_data,
                         r_available = True,
                         r_language = Some language_code'\<rparr>)))"

text \<open>The \<^verbatim>\<open>except\<close> clauses, in the order of the source.\<close>

fun get_transcript_except :: "string \<Rightarrow> py_exn \<Rightarrow> py_exn + 'n transcript_result" where
  "get_transcript_except video_id (TranscriptsDisabled m) = Inr (not_available video_id)"
| "get_transcript_except video_id (NoTranscriptFound m) = Inr (not_available video_id)"
| "get_transcript_except video_id (VideoUnavailable m) =
     Inl (ValueError (''Video '' @ video_id @ '' is unavailable or does not exist''))"
| "get_transcript_except video_id x =
     Inl (ValueError (''Unexpected error during transcript retrieval: '' @ exn_str x))"

definition get_transcript ::
  "(string \<Rightarrow> py_exn + 'n track list) \<Rightarrow> string \<Rightarrow> string option \<Rightarrow> py_exn + 'n transcript_result" where
  "get_transcript api_list videoId language =
     (if videoId = [] \<or> strip videoId = []
      then Inl (ValueError ''videoId parameter is required and cannot be empty'')
      else
        (let video_id = strip videoId in
         (case get_transcript_try api_list video_id language of
            Inr result \<Rightarrow> Inr result
          | Inl x \<Rightarrow> get_transcript_except video_id x)))"

section \<open>\<^verbatim>\<open>load_tool_schemas\<close>\<close>

text \<open>
  What opening and parsing one candidate path does: \<^verbatim>\<open>open\<close> raises
  \<^verbatim>\<open>FileNotFoundError\<close>, or opening or reading raises something else, or \<^verbatim>\<open>json.load\<close> raises
  \<^verbatim>\<open>JSONDecodeError\<close>, or the document is parsed.
\<close>

datatype file_state =
    FileNotFound
  | ReadError py_exn
  | NotJson string
  | Parsed json

text \<open>
  A dict with arbitrary hashable keys, as the comprehension
  \<^verbatim>\<open>{tool["name"]: tool for tool in schema_data["tools"]}\<close> builds it. Python identifies
  the keys \<^verbatim>\<open>True\<close> and \<^verbatim>\<open>1\<close>, and \<^verbatim>\<open>False\<close> and \<^verbatim>\<open>0\<close>; a key that is already present keeps
  its place and gets the new value.
\<close>

fun key_eq :: "json \<Rightarrow> json \<Rightarrow> bool" where
  "key_eq (JBool b) (JInt i) = (i = (if b then 1 else 0))"
| "key_eq (JInt i) (JBool b) = (i = (if b then 1 else 0))"
| "key_eq a b = (a = b)"

fun dict_put :: "(json \<times> json) list \<Rightarrow> json \<Rightarrow> json \<Rightarrow> (json \<times> json) list" where
  "dict_put [] k v = [(k, v)]"
| "dict_put ((k', v') # d) k v =
     (if key_eq k' k then (k', v) # d else (k', v') # dict_put d k v)"

definition tool_entry :: "json \<Rightarrow> py_exn + (json \<times> json)" where
  "tool_entry tool =
     ebind (py_getitem tool ''name'') (\<lambda>name.
       if hashable name then Inr (name, tool) else Inl (unhashable_error name))"

definition tools_by_name :: "json \<Rightarrow> py_exn + (json \<times> json) list" where
  "tools_by_name schema_data =
     ebind (py_getitem schema_data ''tools'') (\<lambda>tools.
       ebind (py_iter tools) (\<lambda>tool_list.
         ebind (emap tool_entry tool_list) (\<lambda>entries.
           Inr (foldl (\<lambda>d kv. dict_put d (fst kv) (snd kv)) [] entries))))"

text \<open>
  The loop over the candidate paths. The second component of the result is what was
  passed to \<^verbatim>\<open>logger.error\<close>.
\<close>

fun load_candidates ::
  "(string \<Rightarrow> file_state) \<Rightarrow> string list \<Rightarrow> (py_exn + (json \<times> json) list) \<times> string list" where
  "load_candidates fs [] =
     (Inr [], [''tools.json file not found in package or working directory''])"
| "load_candidates fs (path # candidates) =
     (case fs path of
        FileNotFound \<Rightarrow> load_candidates fs candidates
      | ReadError x \<Rightarrow> (Inl x, [])
      | NotJson e \<Rightarrow> (Inr [], [''Error parsing tools.json at '' @ path @ '': '' @ e])
      | Parsed schema_data \<Rightarrow> (tools_by_name schema_data, []))"

text \<open>
  \<^verbatim>\<open>load_tool_schemas()\<close>; the two parameters are the values of
  \<^verbatim>\<open>_package_path("tools.json")\<close> and \<^verbatim>\<open>os.path.join(os.getcwd(), "tools.json")\<close>.
\<close>

definition load_tool_schemas ::
  "(string \<Rightarrow> file_state) \<Rightarrow> string \<Rightarrow> string \<Rightarrow> (py_exn + (json \<times> json) list) \<times> string list" where
  "load_tool_schemas fs package_path cwd_path = load_candidates fs [package_path, cwd_path]"

text \<open>
  Importing \<^verbatim>\<open>server.py\<close> runs \<^verbatim>\<open>TOOL_SCHEMAS = load_tool_schemas()\<close>: an exception that
  leaves \<^verbatim>\<open>load_tool_schemas\<close> ends the import and with it the process; otherwise the
  module is set up with the mapping returned and the server can run.
\<close>

datatype startup = Import_failed py_exn | Serving "(json \<times> json) list"

definition module_import :: "(string \<Rightarrow> file_state) \<Rightarrow> string \<Rightarrow> string \<Rightarrow> startup" where
  "module_import fs package_path cwd_path =
     (case fst (load_tool_schemas fs package_path cwd_path) of
        Inl x \<Rightarrow> Import_failed x
      | Inr TOOL_SCHEMAS \<Rightarrow> Serving TOOL_SCHEMAS)"

section \<open>The validator\<close>

text \<open>
  Modelled from the spec: the Validator of section 4.2. The repository validates with
  the \<^verbatim>\<open>jsonschema\<close> library against the schemas of \<^verbatim>\<open>tools.json\<close>, and neither is in the
  source tree. A schema node has a \<^verbatim>\<open>type\<close>, \<^verbatim>\<open>properties\<close>, \<^verbatim>\<open>required\<close>, \<^verbatim>\<open>items\<close> and
  a \<^verbatim>\<open>$ref\<close> into the definitions table. Validation is structural (type match, required
  properties present, nested property and array validation), accepts extra properties,
  reports the first failure with one message, and treats a reference that does not
  resolve as a failure. Nesting and reference resolution are followed to depth 64.
\<close>

datatype schema =
  Schema (s_type: "string option") (s_properties: "(string \<times> schema) list")
         (s_required: "string list") (s_items: "schema option") (s_ref: "string option")

record validation_outcome =
  valid :: bool
  message :: string

definition type_matches :: "string \<Rightarrow> json \<Rightarrow> bool" where
  "type_matches t v =
     (if t = ''object'' then (case v of JObj kvs \<Rightarrow> True | _ \<Rightarrow> False)
      else if t = ''array'' then (case v of JArr xs \<Rightarrow> True | _ \<Rightarrow> False)
      else if t = ''string'' then (case v of JStr s \<Rightarrow> True | _ \<Rightarrow> False)
      else if t = ''integer'' \<or> t = ''number'' then (case v of JInt i \<Rightarrow> True | _ \<Rightarrow> False)
      else if t = ''boolean'' then (case v of JBool b \<Rightarrow> True | _ \<Rightarrow> False)
      else if t = ''null'' then v = JNull
      else False)"

fun check :: "nat \<Rightarrow> (string \<times> schema) list \<Rightarrow> schema \<Rightarrow> json \<Rightarrow> string option" where
  "check 0 defs sch v = Some ''nesting too deep''"
| "check (Suc n) defs (Schema ty props req its rf) v =
     (case rf of
        Some name \<Rightarrow>
          (case map_of defs name of
             None \<Rightarrow> Some (''unresolvable reference '' @ name)
           | Some target \<Rightarrow> check n defs target v)
      | None \<Rightarrow>
          (case (case ty of
                   None \<Rightarrow> None
                 | Some t \<Rightarrow> if type_matches t v then None else Some (''value is not of type '' @ t)) of
             Some msg \<Rightarrow> Some msg
           | None \<Rightarrow>
               (case v of
                  JObj kvs \<Rightarrow>
                    (case find (\<lambda>k. map_of kvs k = None) req of
                       Some k \<Rightarrow> Some (k @ '' is a required property'')
                     | None \<Rightarrow>
                         first_some
                           (\<lambda>p. case map_of kvs (fst p) of
                                   None \<Rightarrow> None
                                 | Some w \<Rightarrow> check n defs (snd p) w)
                           props)
                | JArr xs \<Rightarrow>
                    (case its of
                       None \<Rightarrow> None
                     | Some sub \<Rightarrow> first_some (check n defs sub) xs)
                | _ \<Rightarrow> None)))"

definition outcome_of :: "string option \<Rightarrow> validation_outcome" where
  "outcome_of r = (case r of None \<Rightarrow> \<lparr>valid = True, message = ''valid''\<rparr>
                     | Some msg \<Rightarrow> \<lparr>valid = False, message = msg\<rparr>)"

definition validate_input :: "arguments \<Rightarrow> schema \<Rightarrow> validation_outcome" where
  "validate_input arguments input_schema = outcome_of (check 64 [] input_schema (JObj arguments))"

definition validate_output :: "json \<Rightarrow> schema \<Rightarrow> (string \<times> schema) list \<Rightarrow> validation_outcome" where
  "validate_output result output_schema definitions = outcome_of (check 64 definitions output_schema result)"


subsection \<open>A registry, schemas and an environment to evaluate on\<close>

definition example_input_schema :: schema where
  "example_input_schema =
     Schema (Some ''object'')
       [(''ids'', Schema (Some ''array'') [] [] (Some (Schema (Some ''string'') [] [] None None)) None),
        (''parts'', Schema (Some ''array'') [] [] (Some (Schema (Some ''string'') [] [] None None)) None)]
       [''ids''] None None"

definition example_definitions :: "(string \<times> schema) list" where
  "example_definitions = [(''Video'', Schema (Some ''object'') [] [''id''] None None)]"

definition example_output_schema :: schema where
  "example_output_schema =
     Schema (Some ''object'')
       [(''items'', Schema (Some ''array'') [] [] (Some (Schema None [] [] None (Some ''Video''))) None)]
       [''items''] None None"

definition example_open_schema :: schema where
  "example_open_schema = Schema (Some ''object'') [] [''items''] None None"

definition example_env :: env where
  "example_env =
     \<lparr>YOUTUBE_API_KEY = Some ''key'', build_raises = None,
      videos_list_execute =
        (\<lambda>part ident. Inr (JObj [(''items'', JArr [JObj [(''kind'', JStr ''youtube#video'')]])]))\<rparr>"

text \<open>
  A registry with \<^verbatim>\<open>get_videos\<close> as it is. The evaluations below call \<^verbatim>\<open>get_videos\<close> or use
  the names only; the two other places are held by a handler that is never called there
  and does nothing.
\<close>

definition returns_none :: handler where
  "returns_none arguments = Inr JNull"

definition example_registry :: "(string \<times> handler) list" where
  "example_registry = TOOL_FUNCTIONS returns_none (get_videos_tool example_env) returns_none"

subsection \<open>Notions used in the statements\<close>

fun nonempty_string :: "json \<Rightarrow> bool" where
  "nonempty_string (JStr s) = (s \<noteq> [])"
| "nonempty_string v = False"

text \<open>\<^verbatim>\<open>if arguments is None: arguments = {}\<close>\<close>

definition given_arguments :: "arguments option \<Rightarrow> arguments" where
  "given_arguments arguments = (case arguments of None \<Rightarrow> [] | Some a \<Rightarrow> a)"

subsection \<open>Notions used in the statements about transcripts\<close>

text \<open>
  The language code that the first attempt looks for: the requested language with the
  surrounding whitespace removed, when there is one and it is not blank.
\<close>

definition requested_code :: "string option \<Rightarrow> string option" where
  "requested_code language =
     (case language of None \<Rightarrow> None | Some l \<Rightarrow> if strip l = [] then None else Some (strip l))"

definition has_code :: "'n track list \<Rightarrow> string \<Rightarrow> bool" where
  "has_code tracks c = (\<exists>t \<in> set tracks. language_code t = c)"

definition no_requested_track :: "'n track list \<Rightarrow> string option \<Rightarrow> bool" where
  "no_requested_track tracks language =
     (case requested_code language of None \<Rightarrow> True | Some c \<Rightarrow> \<not> has_code tracks c)"

text \<open>
  The exception, if any, that the transcript source raises while \<^verbatim>\<open>get_transcript\<close> runs:
  at \<^verbatim>\<open>api.list\<close>, or at \<^verbatim>\<open>fetch()\<close> on the track selected.
\<close>

definition source_signal ::
  "(string \<Rightarrow> py_exn + 'n track list) \<Rightarrow> string \<Rightarrow> string option \<Rightarrow> py_exn option" where
  "source_signal api_list video_id language =
     (case api_list video_id of
        Inl x \<Rightarrow> Some x
      | Inr transcript_list \<Rightarrow>
          (case select_transcript transcript_list language of
             None \<Rightarrow> None
           | Some (t, c) \<Rightarrow> (case fetch t of Inl x \<Rightarrow> Some x | Inr d \<Rightarrow> None)))"

fun transcript_signal :: "py_exn \<Rightarrow> bool" where
  "transcript_signal (TranscriptsDisabled m) = True"
| "transcript_signal (NoTranscriptFound m) = True"
| "transcript_signal (VideoUnavailable m) = True"
| "transcript_signal x = False"

text \<open>Tracks and transcript sources to evaluate on.\<close>

definition en_generated :: "int track" where
  "en_generated = \<lparr>language_code = ''en'', is_generated = True,
      fetch = Inr [\<lparr>text_of = ''hello'', start = 0, duration = 2\<rparr>]\<rparr>"

definition es_manual :: "int track" where
  "es_manual = \<lparr>language_code = ''es'', is_generated = False,
      fetch = Inr [\<lparr>text_of = ''hola'', start = 0, duration = 2\<rparr>]\<rparr>"

definition ja_manual :: "int track" where
  "ja_manual = \<lparr>language_code = ''ja'', is_generated = False, fetch = Inr []\<rparr>"

definition ko_generated :: "int track" where
  "ko_generated = \<lparr>language_code = ''ko'', is_generated = True, fetch = Inr []\<rparr>"

definition english_and_spanish :: "string \<Rightarrow> py_exn + int track list" where
  "english_and_spanish video_id = Inr [en_generated, es_manual]"

definition unreachable_source :: "string \<Rightarrow> py_exn + int track list" where
  "unreachable_source video_id = Inl (OtherException ''connection reset'')"


subsection \<open>Notions used in the statements about the registries\<close>

text \<open>The keys of the schema registry are the keys of the handler registry.\<close>

definition names_agree :: "(json \<times> json) list \<Rightarrow> (string \<times> handler) list \<Rightarrow> bool" where
  "names_agree tool_schemas tool_functions = (fst ` set tool_schemas = JStr ` fst ` set tool_functions)"

text \<open>The name of a tool entry of the document, and whether the entry has a string for it.\<close>

definition tool_name :: "json \<Rightarrow> json" where
  "tool_name tool = (case py_getitem tool ''name'' of Inr n \<Rightarrow> n | Inl x \<Rightarrow> JNull)"

definition named_tool :: "json \<Rightarrow> bool" where
  "named_tool tool = (case tool_name tool of JStr n \<Rightarrow> True | _ \<Rightarrow> False)"

text \<open>The state of the first candidate path at which a file is found.\<close>

definition first_found :: "(string \<Rightarrow> file_state) \<Rightarrow> string \<Rightarrow> string \<Rightarrow> file_state" where
  "first_found fs package_path cwd_path =
     (if fs package_path = FileNotFound then fs cwd_path else fs package_path)"

text \<open>File systems to evaluate on: one without any file, one whose files do not parse.\<close>

definition no_files :: "string \<Rightarrow> file_state" where
  "no_files path = FileNotFound"

definition unparsable_files :: "string \<Rightarrow> file_state" where
  "unparsable_files path = NotJson ''Expecting value''"

definition example_document :: json where
  "example_document =
     JObj [(''tools'',
            JArr [JObj [(''name'', JStr ''search_videos''), (''description'', JStr ''Search'')],
                  JObj [(''name'', JStr ''get_videos''), (''description'', JStr ''Details'')],
                  JObj [(''name'', JStr ''get_transcript''), (''description'', JStr ''Transcript'')]])]"


definition str_keys :: "(json \<times> json) list \<Rightarrow> bool" where
  "str_keys d = (\<forall>k \<in> fst ` set d. \<exists>n. k = JStr n)"


section \<open>Properties of \<^verbatim>\<open>parse_duration\<close>\<close>

lemma first_some_None: "(\<And>x. x \<in> set xs \<Longrightarrow> f x = None) \<Longrightarrow> first_some f xs = None"
  by (induction xs) auto

lemma group_match:
  assumes c: "\<not> is_digit c"
  shows "rmatch (Seq (Capture i DigitPlus) (Chars [c])) s g k =
     (let ds = takeWhile is_digit s; rest = dropWhile is_digit s
      in if ds \<noteq> [] \<and> rest \<noteq> [] \<and> hd rest = c then k (tl rest) (g(i \<mapsto> ds)) else None)"
proof -
  define N where "N = length (takeWhile is_digit s)"
  define K where "K = (\<lambda>n. if prefix [c] (drop n s) then k (drop (length [c]) (drop n s)) (g(i \<mapsto> take (length s - length (drop n s)) s)) else None)"
  have unfold: "rmatch (Seq (Capture i DigitPlus) (Chars [c])) s g k = first_some K (rev [1 ..< Suc N])"
    unfolding K_def N_def by (simp only: rmatch.simps list.size One_nat_def add_0 plus_nat.simps)
  have small: "K n = None" if "n < N" for n
  proof -
    have "n < length s" using that N_def length_takeWhile_le[of is_digit s] by simp
    moreover have "is_digit (s ! n)" using that unfolding N_def
      by (metis nth_mem takeWhile_nth set_takeWhileD)
    ultimately have "\<not> prefix [c] (drop n s)" using c
      by (metis Cons_nth_drop_Suc Cons_prefix_Cons)
    then show ?thesis by (simp add: K_def)
  qed
  have dropN: "drop N s = dropWhile is_digit s" and takeN: "take N s = takeWhile is_digit s"
    unfolding N_def by (rule dropWhile_eq_drop[symmetric], rule takeWhile_eq_take[symmetric])
  show ?thesis
  proof (cases "N = 0")
    case True
    then have "takeWhile is_digit s = []" by (simp add: N_def)
    then show ?thesis using True unfold by simp
  next
    case False
    then have ne: "takeWhile is_digit s \<noteq> []" by (auto simp: N_def)
    have revs: "rev [1 ..< Suc N] = N # rev [1 ..< N]" using False by simp
    have rest_none: "first_some K (rev [1 ..< N]) = None"
      by (rule first_some_None) (auto intro: small)
    have Nle: "N \<le> length s" unfolding N_def by (rule length_takeWhile_le)
    have len: "take (length s - length (drop N s)) s = takeWhile is_digit s"
      using Nle takeN by simp
    have "K N = (if prefix [c] (drop N s) then k (drop (length [c]) (drop N s)) (g(i \<mapsto> takeWhile is_digit s)) else None)"
      by (simp only: K_def len)
    then have KN: "K N = (if dropWhile is_digit s \<noteq> [] \<and> hd (dropWhile is_digit s) = c
         then k (tl (dropWhile is_digit s)) (g(i \<mapsto> takeWhile is_digit s)) else None)"
      by (cases "dropWhile is_digit s") (simp_all add: dropN)
    show ?thesis unfolding unfold revs using rest_none KN ne
      by (auto simp: Let_def split: option.splits)
  qed
qed

lemma not_digit_HMS: "\<not> is_digit CHR ''H''" "\<not> is_digit CHR ''M''" "\<not> is_digit CHR ''S''"
  by (simp_all add: is_digit_def)

lemma maybe_group:
  assumes c: "\<not> is_digit c" and k: "\<And>s g. k s g \<noteq> None"
  shows "rmatch (Maybe (Seq (Capture i DigitPlus) (Chars [c]))) s g k =
           k (fst (take_component c i (s, g))) (snd (take_component c i (s, g)))"
proof -
  have "rmatch (Maybe (Seq (Capture i DigitPlus) (Chars [c]))) s g k =
      (case rmatch (Seq (Capture i DigitPlus) (Chars [c])) s g k of Some r \<Rightarrow> Some r | None \<Rightarrow> k s g)"
    by (simp only: rmatch.simps)
  also have "\<dots> = k (fst (take_component c i (s, g))) (snd (take_component c i (s, g)))"
    unfolding group_match[OF c] take_component_def using k[of "tl (dropWhile is_digit s)" "g(i \<mapsto> takeWhile is_digit s)"]
    by (auto simp: Let_def split: option.splits)
  finally show ?thesis .
qed

lemma re_match_duration:
  "re_match duration_pattern s = (if prefix ''PT'' s then Some (duration_groups (drop 2 s)) else None)"
proof -
  let ?kS = "\<lambda>(s'::string) (g::groups). Some g"
  let ?S = "Maybe (Seq (Capture 3 DigitPlus) (Chars ''S''))"
  let ?M = "Maybe (Seq (Capture 2 DigitPlus) (Chars ''M''))"
  let ?H = "Maybe (Seq (Capture 1 DigitPlus) (Chars ''H''))"
  let ?kM = "\<lambda>s' g'. rmatch ?S s' g' ?kS"
  let ?kH = "\<lambda>s' g'. rmatch ?M s' g' ?kM"
  have S: "rmatch ?S s' g' ?kS = Some (snd (take_component CHR ''S'' 3 (s', g')))" for s' g'
    by (subst maybe_group) (simp_all add: not_digit_HMS)
  have kM: "?kM s' g' \<noteq> None" for s' g' by (simp only: S) simp
  have M: "rmatch ?M s' g' ?kM = Some (snd (take_component CHR ''S'' 3 (take_component CHR ''M'' 2 (s', g'))))" for s' g'
    by (subst maybe_group[OF not_digit_HMS(2) kM]) (simp only: S prod.collapse)
  have kH: "?kH s' g' \<noteq> None" for s' g' by (simp only: M) simp
  have H: "rmatch ?H s' g' ?kH = Some (snd (take_component CHR ''S'' 3 (take_component CHR ''M'' 2 (take_component CHR ''H'' 1 (s', g')))))" for s' g'
    by (subst maybe_group[OF not_digit_HMS(1) kH]) (simp only: M prod.collapse)
  have "re_match duration_pattern s =
      (if prefix ''PT'' s then rmatch ?H (drop (length ''PT'') s) Map.empty ?kH else None)"
    by (simp only: re_match_def duration_pattern_def rmatch.simps)
  moreover have "length ''PT'' = 2" by simp
  ultimately show ?thesis by (simp only: H duration_groups_def)
qed

lemma max_run_takeWhile: "length (takeWhile is_digit s) \<le> max_digit_run s"
  by (cases s) simp_all

lemma max_run_suffix: "suffix s d \<Longrightarrow> max_digit_run s \<le> max_digit_run d"
proof (induction d)
  case Nil
  then show ?case by simp
next
  case (Cons c cs)
  from Cons.prems have "s = c # cs \<or> suffix s cs" by (simp add: suffix_Cons)
  then show ?case
  proof
    assume "s = c # cs" then show ?thesis by simp
  next
    assume "suffix s cs"
    then have "max_digit_run s \<le> max_digit_run cs" by (rule Cons.IH)
    then show ?thesis by simp
  qed
qed

lemma take_component_bounded:
  assumes "suffix (fst sg) d" "bounded_groups d (snd sg)"
  shows "suffix (fst (take_component c i sg)) d \<and> bounded_groups d (snd (take_component c i sg))"
proof -
  let ?s = "fst sg"
  let ?ds = "takeWhile is_digit ?s"
  have rest: "suffix (tl (dropWhile is_digit ?s)) d"
    using suffix_order.trans [OF suffix_tl suffix_order.trans [OF suffix_dropWhile assms(1)]] .
  have len: "length ?ds \<le> max_digit_run d"
    using max_run_takeWhile [of ?s] max_run_suffix [OF assms(1)] by simp
  have digits: "list_all is_digit ?ds"
    by (auto simp: list_all_iff dest: set_takeWhileD)
  show ?thesis
    using assms rest len digits
    by (auto simp: take_component_def bounded_groups_def Let_def)
qed

lemma duration_groups_bounded: "bounded_groups d (duration_groups (drop 2 d))"
proof -
  let ?a = "take_component CHR ''H'' 1 (drop 2 d, Map.empty)"
  let ?b = "take_component CHR ''M'' 2 ?a"
  have a: "suffix (fst ?a) d \<and> bounded_groups d (snd ?a)"
    by (rule take_component_bounded) (simp_all add: suffix_drop bounded_groups_def)
  have b: "suffix (fst ?b) d \<and> bounded_groups d (snd ?b)"
    using a by (intro take_component_bounded) simp_all
  show ?thesis
    unfolding duration_groups_def using b take_component_bounded [of ?b d "CHR ''S''" 3] by simp
qed

lemma digit_val_nonneg: "is_digit c \<Longrightarrow> 0 \<le> digit_val c"
  by (auto simp: is_digit_def digit_val_def)

lemma foldl_digits_nonneg: "list_all is_digit ds \<Longrightarrow> 0 \<le> a \<Longrightarrow> 0 \<le> foldl (\<lambda>a c. 10 * a + digit_val c) a ds"
  by (induction ds arbitrary: a) (auto simp: digit_val_nonneg)

lemma digits_value_nonneg: "list_all is_digit ds \<Longrightarrow> 0 \<le> digits_value ds"
  unfolding digits_value_def by (rule foldl_digits_nonneg) simp_all

lemma group_int_outcome:
  assumes "bounded_groups d m"
  shows "(\<exists>n. group_int m i = Inr n \<and> 0 \<le> n) \<or>
         (\<exists>msg. group_int m i = Inl (ValueError msg) \<and> max_str_digits < max_digit_run d)"
proof (cases "m i")
  case None
  then show ?thesis by (simp add: group_int_def)
next
  case (Some t)
  with assms have t: "t \<noteq> []" "list_all is_digit t" "length t \<le> max_digit_run d"
    by (auto simp: bounded_groups_def)
  show ?thesis
  proof (cases "max_str_digits < length t")
    case True
    then show ?thesis using Some t by (simp add: group_int_def py_int_def)
  next
    case False
    then show ?thesis using Some t by (simp add: group_int_def py_int_def digits_value_nonneg)
  qed
qed

lemma parse_duration_outcome:
  "(\<exists>n. parse_duration d = Inr n \<and> 0 \<le> n) \<or>
   (\<exists>msg. parse_duration d = Inl (ValueError msg) \<and> max_str_digits < max_digit_run d)"
proof (cases "d \<noteq> [] \<and> prefix ''PT'' d")
  case False
  then show ?thesis by (auto simp: parse_duration_def re_match_duration)
next
  case True
  let ?m = "duration_groups (drop 2 d)"
  note g = group_int_outcome [OF duration_groups_bounded, of d]
  have pd: "parse_duration d =
      (case group_int ?m 1 of
         Inl e \<Rightarrow> Inl e
       | Inr hours \<Rightarrow>
           (case group_int ?m 2 of
              Inl e \<Rightarrow> Inl e
            | Inr minutes \<Rightarrow>
                (case group_int ?m 3 of
                   Inl e \<Rightarrow> Inl e
                 | Inr seconds \<Rightarrow> Inr (hours * 3600 + minutes * 60 + seconds))))"
    using True by (simp add: parse_duration_def re_match_duration del: One_nat_def)
  from g [of 1] g [of 2] g [of 3] show ?thesis
    unfolding pd by (elim disjE exE conjE) simp_all
qed

lemma parse_duration_returns:
  "max_digit_run d \<le> max_str_digits \<Longrightarrow> \<exists>n. parse_duration d = Inr n \<and> 0 \<le> n"
  using parse_duration_outcome [of d] by auto

lemma takeWhile_digits: "list_all is_digit ds \<Longrightarrow> \<not> is_digit c \<Longrightarrow> takeWhile is_digit (ds @ c # rest) = ds"
  by (induction ds) auto

lemma dropWhile_digits: "list_all is_digit ds \<Longrightarrow> \<not> is_digit c \<Longrightarrow> dropWhile is_digit (ds @ c # rest) = c # rest"
  by (induction ds) auto

lemma take_component_hit: "digit_string ds \<Longrightarrow> \<not> is_digit c \<Longrightarrow> take_component c i (ds @ c # rest, g) = (rest, g(i \<mapsto> ds))"
  by (simp add: take_component_def digit_string_def takeWhile_digits dropWhile_digits)

lemma take_component_miss: "digit_string ds \<Longrightarrow> \<not> is_digit c' \<Longrightarrow> c' \<noteq> c \<Longrightarrow> take_component c i (ds @ c' # rest, g) = (ds @ c' # rest, g)"
  by (simp add: take_component_def digit_string_def takeWhile_digits dropWhile_digits)

lemma take_component_Nil: "take_component c i ([], g) = ([], g)"
  by (simp add: take_component_def)

lemma group_int_digits:
  "digit_string ds \<Longrightarrow> length ds \<le> max_str_digits \<Longrightarrow> m i = Some ds \<Longrightarrow>
   group_int m i = Inr (digits_value ds)"
  by (simp add: group_int_def py_int_def digit_string_def)

lemma group_int_long:
  "digit_string ds \<Longrightarrow> max_str_digits < length ds \<Longrightarrow> m i = Some ds \<Longrightarrow>
   group_int m i =
     Inl (ValueError
       (''Exceeds the limit (4300 digits) for integer string conversion: value has '' @
        decimal (length ds) @
        '' digits; use sys.set_int_max_str_digits() to increase the limit''))"
  by (simp add: group_int_def py_int_def digit_string_def)

lemma group_int_None: "m i = None \<Longrightarrow> group_int m i = Inr 0"
  by (simp add: group_int_def)

lemma duration_groups_text:
  assumes "component_ok h" "component_ok m" "component_ok s"
  shows "duration_groups (component h CHR ''H'' @ component m CHR ''M'' @ component s CHR ''S'') 1 = h"
    and "duration_groups (component h CHR ''H'' @ component m CHR ''M'' @ component s CHR ''S'') 2 = m"
    and "duration_groups (component h CHR ''H'' @ component m CHR ''M'' @ component s CHR ''S'') 3 = s"
  using assms
  by (cases h; cases m; cases s;
      simp add: duration_groups_def take_component_hit take_component_miss take_component_Nil not_digit_HMS)+

lemma group_int_component:
  "component_ok c \<Longrightarrow> component_short c \<Longrightarrow> m i = c \<Longrightarrow> group_int m i = Inr (component_value c)"
  by (cases c) (simp_all add: group_int_digits group_int_None)

lemma parse_duration_text:
  assumes "component_ok h" "component_ok m" "component_ok s"
    and "component_short h" "component_short m" "component_short s"
  shows "parse_duration (duration_text h m s) =
           Inr (component_value h * 3600 + component_value m * 60 + component_value s)"
proof -
  let ?r = "component h CHR ''H'' @ component m CHR ''M'' @ component s CHR ''S''"
  note t = duration_groups_text [OF assms(1-3)]
  have m: "re_match duration_pattern (duration_text h m s) = Some (duration_groups ?r)"
    by (simp add: re_match_duration duration_text_def)
  have g: "group_int (duration_groups ?r) 1 = Inr (component_value h)"
          "group_int (duration_groups ?r) 2 = Inr (component_value m)"
          "group_int (duration_groups ?r) 3 = Inr (component_value s)"
    by (rule group_int_component[where m = "duration_groups ?r" and c = h, OF assms(1) assms(4) t(1)],
        rule group_int_component[where m = "duration_groups ?r" and c = m, OF assms(2) assms(5) t(2)],
        rule group_int_component[where m = "duration_groups ?r" and c = s, OF assms(3) assms(6) t(3)])
  have "duration_text h m s \<noteq> []" by (simp add: duration_text_def)
  then show ?thesis by (simp add: parse_duration_def m g del: One_nat_def)
qed

lemma re_match_duration_None: "re_match duration_pattern s = None \<longleftrightarrow> \<not> prefix ''PT'' s"
  by (simp add: re_match_duration)

subsection \<open>Decimal numerals\<close>

lemma digit_char_cases:
  assumes "d < 10"
  shows "is_digit (digit_char d) \<and> digit_val (digit_char d) = int d"
proof -
  from assms have "d \<in> {0, 1, 2, 3, 4, 5, 6, 7, 8, 9}" by auto
  then show ?thesis by (auto simp: digit_char_def is_digit_def digit_val_def)
qed

lemma decimal_digits: "list_all is_digit (decimal n)"
proof (induction n rule: decimal.induct)
  case (1 n)
  show ?case
  proof (cases "n < 10")
    case True
    then show ?thesis by (subst decimal.simps) (simp add: digit_char_cases)
  next
    case False
    then show ?thesis using "1.IH" by (subst decimal.simps) (simp add: digit_char_cases)
  qed
qed

lemma decimal_nonempty: "decimal n \<noteq> []"
  by (subst decimal.simps) simp

lemma digits_value_snoc: "digits_value (ds @ [c]) = 10 * digits_value ds + digit_val c"
  by (simp add: digits_value_def)

lemma digits_value_decimal: "digits_value (decimal n) = int n"
proof (induction n rule: decimal.induct)
  case (1 n)
  show ?case
  proof (cases "n < 10")
    case True
    then show ?thesis
      by (subst decimal.simps) (simp add: digits_value_def digit_char_cases)
  next
    case False
    have "digits_value (decimal n) = 10 * digits_value (decimal (n div 10)) + digit_val (digit_char (n mod 10))"
      using False by (subst decimal.simps) (simp add: digits_value_snoc)
    also have "\<dots> = 10 * int (n div 10) + int (n mod 10)"
      using False "1.IH" by (simp add: digit_char_cases)
    also have "\<dots> = int n"
      by presburger
    finally show ?thesis .
  qed
qed

lemma length_decimal: "0 < k \<Longrightarrow> n < 10 ^ k \<Longrightarrow> length (decimal n) \<le> k"
proof (induction n arbitrary: k rule: decimal.induct)
  case (1 n)
  show ?case
  proof (cases "n < 10")
    case True
    then show ?thesis using "1.prems" by (subst decimal.simps) simp
  next
    case False
    with "1.prems" obtain j where k: "k = Suc j" "0 < j"
      by (cases k; cases "k - 1") auto
    have "n div 10 < 10 ^ j" using "1.prems"(2) k by (simp add: less_mult_imp_div_less mult.commute)
    then have "length (decimal (n div 10)) \<le> j" using "1.IH" False k by simp
    then show ?thesis using False k by (subst decimal.simps) simp
  qed
qed

lemma parse_duration_of:
  assumes "writable h" "writable m" "writable s"
  shows "parse_duration (duration_of h m s) = Inr (amount h * 3600 + amount m * 60 + amount s)"
proof -
  have ok: "component_ok (map_option decimal c)" for c
    by (cases c) (simp_all add: digit_string_def decimal_nonempty decimal_digits)
  have short: "writable c \<Longrightarrow> component_short (map_option decimal c)" for c
    by (cases c) simp_all
  have val: "component_value (map_option decimal c) = amount c" for c
    by (cases c) (simp_all add: digits_value_decimal)
  show ?thesis
    unfolding duration_of_def
    using parse_duration_text [OF ok ok ok short [OF assms(1)] short [OF assms(2)] short [OF assms(3)]]
    by (simp add: val)
qed

lemma replicate_digit_string: "0 < n \<Longrightarrow> digit_string (replicate n CHR ''1'')"
  by (simp add: digit_string_def list_all_iff is_digit_def)

lemma decimal_4301: "decimal 4301 = ''4301''"
  by (simp add: decimal.simps digit_char_def)


text \<open>
  Claim C10, as stated, fails in "total": \<^verbatim>\<open>int\<close> refuses a string of more than 4300
  digits. On \<^verbatim>\<open>PT\<close>, 4301 digits and \<^verbatim>\<open>S\<close> the pattern matches, the third group is the
  4301 digits, and \<^verbatim>\<open>int(match.group(3))\<close> raises \<^verbatim>\<open>ValueError\<close>, which leaves
  \<^verbatim>\<open>parse_duration\<close>.
\<close>

theorem parse_duration_limit_counterexample:
  "parse_duration (''PT'' @ replicate 4301 CHR ''1'' @ ''S'') =
     Inl (ValueError ''Exceeds the limit (4300 digits) for integer string conversion: value has 4301 digits; use sys.set_int_max_str_digits() to increase the limit'')"
proof -
  define ds where "ds = replicate 4301 CHR ''1''"
  have dig: "digit_string ds"
    unfolding ds_def by (rule replicate_digit_string) simp
  have len: "length ds = 4301"
    unfolding ds_def by (rule length_replicate)
  have long: "max_str_digits < length ds"
    by (simp add: len max_str_digits_def)
  have ok: "component_ok None" "component_ok (Some ds)"
    using dig by simp_all
  note t = duration_groups_text [OF ok(1) ok(1) ok(2)]
  let ?r = "component None CHR ''H'' @ component None CHR ''M'' @ component (Some ds) CHR ''S''"
  have r: "?r = ds @ ''S''" by simp
  have m: "re_match duration_pattern (''PT'' @ ds @ ''S'') = Some (duration_groups (ds @ ''S''))"
    by (simp add: re_match_duration)
  have g1: "group_int (duration_groups (ds @ ''S'')) 1 = Inr 0"
    using t(1) unfolding r by (rule group_int_None)
  have g2: "group_int (duration_groups (ds @ ''S'')) 2 = Inr 0"
    using t(2) unfolding r by (rule group_int_None)
  have g3: "group_int (duration_groups (ds @ ''S'')) 3 =
     Inl (ValueError
       (''Exceeds the limit (4300 digits) for integer string conversion: value has '' @
        decimal (length ds) @
        '' digits; use sys.set_int_max_str_digits() to increase the limit''))"
    using t(3) unfolding r by (rule group_int_long [OF dig long])
  have "parse_duration (''PT'' @ ds @ ''S'') =
     Inl (ValueError
       (''Exceeds the limit (4300 digits) for integer string conversion: value has '' @
        decimal (length ds) @
        '' digits; use sys.set_int_max_str_digits() to increase the limit''))"
    using m by (simp add: parse_duration_def g1 g2 g3 del: One_nat_def)
  then have "parse_duration (''PT'' @ ds @ ''S'') =
     Inl (ValueError ''Exceeds the limit (4300 digits) for integer string conversion: value has 4301 digits; use sys.set_int_max_str_digits() to increase the limit'')"
    by (simp add: len decimal_4301)
  then show ?thesis
    unfolding ds_def .
qed


text \<open>
  Claim C10, amended. \<^verbatim>\<open>parse_duration\<close> returns a non-negative integer on every string
  that has no run of more than 4300 consecutive decimal digits; on any string it either
  returns a non-negative integer or raises the \<^verbatim>\<open>ValueError\<close> of \<^verbatim>\<open>int\<close>, and it raises only
  when the string has a run of more than 4300 digits. The empty string and any string
  that the pattern does not match yield 0, and a string of the form \<^verbatim>\<open>PT{h}H{m}M{s}S\<close>
  (each component optional, each a decimal numeral of at most 4300 digits, which every
  number below \<open>10 ^ 4300\<close> has) yields \<open>h * 3600 + m * 60 + s\<close>.
\<close>

theorem parse_duration_within_limit:
  "(max_digit_run d \<le> max_str_digits \<longrightarrow> (\<exists>n. parse_duration d = Inr n \<and> 0 \<le> n))
   \<and> ((\<exists>n. parse_duration d = Inr n \<and> 0 \<le> n) \<or>
       (\<exists>msg. parse_duration d = Inl (ValueError msg) \<and> max_str_digits < max_digit_run d))
   \<and> parse_duration [] = Inr 0
   \<and> (re_match duration_pattern d = None \<longrightarrow> parse_duration d = Inr 0)
   \<and> (writable h \<and> writable m \<and> writable s \<longrightarrow>
        parse_duration (duration_of h m s) = Inr (amount h * 3600 + amount m * 60 + amount s))
   \<and> (k < 10 ^ max_str_digits \<longrightarrow> writable (Some k))"
proof (intro conjI impI)
  show "\<exists>n. parse_duration d = Inr n \<and> 0 \<le> n" if "max_digit_run d \<le> max_str_digits"
    using that by (rule parse_duration_returns)
  show "(\<exists>n. parse_duration d = Inr n \<and> 0 \<le> n) \<or>
       (\<exists>msg. parse_duration d = Inl (ValueError msg) \<and> max_str_digits < max_digit_run d)"
    by (rule parse_duration_outcome)
  show "parse_duration [] = Inr 0" by (simp add: parse_duration_def)
  show "parse_duration d = Inr 0" if "re_match duration_pattern d = None"
    using that by (simp add: parse_duration_def)
  show "parse_duration (duration_of h m s) = Inr (amount h * 3600 + amount m * 60 + amount s)"
    if "writable h \<and> writable m \<and> writable s"
    using that by (simp add: parse_duration_of)
  show "writable (Some k)" if "k < 10 ^ max_str_digits"
    using length_decimal [OF _ that] by (simp add: max_str_digits_def)
qed

lemma decimal_small: "decimal (Suc 0) = ''1''" "decimal 1 = ''1''" "decimal 2 = ''2''" "decimal 30 = ''30''" "decimal 4 = ''4''" "decimal 13 = ''13''"
  by (simp_all add: decimal.simps digit_char_def)

theorem parse_duration_within_limit_witness:
  "(\<exists>n. parse_duration ''PT5X'' = Inr n \<and> 0 \<le> n)
   \<and> parse_duration ''P1D'' = Inr 0
   \<and> parse_duration ''PT1H2M30S'' = Inr 3750
   \<and> parse_duration ''PT4M13S'' = Inr 253
   \<and> writable (Some 5)"
proof -
  have "(5::nat) < 10 ^ 1" by simp
  also have "(10::nat) ^ 1 \<le> 10 ^ max_str_digits"
    by (rule power_increasing) (simp_all add: max_str_digits_def)
  finally have small: "(5::nat) < 10 ^ max_str_digits" .
  have run: "max_digit_run ''PT5X'' \<le> max_str_digits"
    by (simp add: is_digit_def max_str_digits_def)
  have nomatch: "re_match duration_pattern ''P1D'' = None"
    by (simp add: re_match_duration_None)
  have w: "writable (Some 1) \<and> writable (Some 2) \<and> writable (Some 30)"
    "writable None \<and> writable (Some 4) \<and> writable (Some 13)"
    by (simp_all add: decimal_small max_str_digits_def)
  have form: "duration_of (Some 1) (Some 2) (Some 30) = ''PT1H2M30S''"
    "duration_of None (Some 4) (Some 13) = ''PT4M13S''"
    by (simp_all add: duration_of_def duration_text_def decimal_small)
  from parse_duration_within_limit [of "''PT5X''" "Some 1" "Some 2" "Some 30" 5] run small
  have 1: "\<exists>n. parse_duration ''PT5X'' = Inr n \<and> 0 \<le> n"
    and 5: "writable (Some 5)"
    by blast+
  from parse_duration_within_limit [of "''P1D''" "Some 1" "Some 2" "Some 30"] nomatch w(1)
  have 2: "parse_duration ''P1D'' = Inr 0"
    and 3: "parse_duration (duration_of (Some 1) (Some 2) (Some 30)) =
          Inr (amount (Some 1) * 3600 + amount (Some 2) * 60 + amount (Some 30))"
    by blast+
  from parse_duration_within_limit [of "''P1D''" None "Some 4" "Some 13"] w(2)
  have 4: "parse_duration (duration_of None (Some 4) (Some 13)) =
          Inr (amount None * 3600 + amount (Some 4) * 60 + amount (Some 13))"
    by blast
  from 3 have t3: "parse_duration ''PT1H2M30S'' = Inr 3750"
    by (simp add: form del: One_nat_def)
  from 4 have t4: "parse_duration ''PT4M13S'' = Inr 253"
    by (simp add: form del: One_nat_def)
  from 1 2 t3 t4 5 show ?thesis by simp
qed


section \<open>Properties of \<^verbatim>\<open>get_videos\<close>\<close>

lemma bad_video_id_if: "\<not> nonempty_string v \<Longrightarrow> bad_video_id v"
  by (cases v) (auto simp: bad_video_id_def)

lemma bad_video_id_JStr: "bad_video_id (JStr s) \<longleftrightarrow> strip s = []"
  by (auto simp: bad_video_id_def strip_def)

lemma set_error_hashable: "\<forall>p \<in> set ps. hashable p \<Longrightarrow> set_error ps = None"
  by (simp add: set_error_def find_None_iff)

lemma get_videos_empty:
  "get_videos e (JArr []) parts =
     (Inl (ValueError ''ids parameter is required and cannot be empty''), [])"
  by (simp add: get_videos_def)

lemma get_videos_many:
  "50 < length xs \<Longrightarrow>
   get_videos e (JArr xs) parts = (Inl (ValueError ''Maximum 50 video IDs allowed per request''), [])"
  by (auto simp: get_videos_def)

lemma get_videos_bad_entry:
  assumes "xs \<noteq> []" "length xs \<le> 50" "\<exists>v \<in> set xs. \<not> nonempty_string v"
  shows "get_videos e (JArr xs) parts =
     (Inl (ValueError ''All video IDs must be non-empty strings''), [])"
proof -
  have "list_ex bad_video_id xs" using assms(3) bad_video_id_if by (auto simp: list_ex_iff)
  then show ?thesis using assms(1,2) by (simp add: get_videos_def)
qed

lemma get_videos_invalid_parts:
  assumes "xs \<noteq> []" "length xs \<le> 50" "\<forall>v \<in> set xs. \<not> bad_video_id v"
    and "\<forall>p \<in> set ps. hashable p" "\<exists>p \<in> set ps. p \<notin> JStr ` set valid_parts"
  shows "get_videos e (JArr xs) (JArr ps) = (Inl (ValueError ''Invalid parts''), [])"
proof -
  have ids: "\<not> list_ex bad_video_id xs" using assms(3) by (simp add: list_ex_iff)
  have inv: "list_ex (\<lambda>p. p \<notin> JStr ` set valid_parts) ps" using assms(5) by (simp add: list_ex_iff)
  show ?thesis
    using assms(1,2) ids inv set_error_hashable [OF assms(4)] by (simp add: get_videos_def)
qed

lemma get_videos_ids_rejected:
  assumes "xs = [] \<or> 50 < length xs \<or> (\<exists>v \<in> set xs. \<not> nonempty_string v)"
  shows "\<exists>msg. get_videos e (JArr xs) parts = (Inl (ValueError msg), [])"
proof (cases "xs = []")
  case True
  then show ?thesis by (simp add: get_videos_empty)
next
  case False
  show ?thesis
  proof (cases "50 < length xs")
    case True
    then show ?thesis by (simp add: get_videos_many)
  next
    case long: False
    with False assms have "\<exists>v \<in> set xs. \<not> nonempty_string v" by simp
    then show ?thesis using False long by (simp add: get_videos_bad_entry)
  qed
qed

lemma get_videos_parts_rejected:
  assumes "\<forall>p \<in> set ps. hashable p" "\<exists>p \<in> set ps. p \<notin> JStr ` set valid_parts"
  shows "\<exists>msg. get_videos e (JArr xs) (JArr ps) = (Inl (ValueError msg), [])"
proof (cases "xs \<noteq> [] \<and> length xs \<le> 50 \<and> (\<forall>v \<in> set xs. \<not> bad_video_id v)")
  case True
  then show ?thesis using assms by (simp add: get_videos_invalid_parts)
next
  case False
  show ?thesis
  proof (cases "xs = []")
    case True
    then show ?thesis by (simp add: get_videos_empty)
  next
    case ne: False
    show ?thesis
    proof (cases "50 < length xs")
      case True
      then show ?thesis by (simp add: get_videos_many)
    next
      case short: False
      with False ne have "list_ex bad_video_id xs" by (auto simp: list_ex_iff)
      then show ?thesis using ne short by (simp add: get_videos_def)
    qed
  qed
qed

lemma get_videos_default_parts: "get_videos e ids JNull = get_videos e ids (JArr [JStr ''snippet''])"
  by (simp add: get_videos_def)

lemma emap_the_str: "emap the_str (map JStr ss) = Inr ss"
  by (induction ss) (simp_all add: ebind_def)

lemma get_videos_default_call:
  assumes "YOUTUBE_API_KEY e = Some key" "key \<noteq> []" "build_raises e = None"
    and "ss \<noteq> []" "length ss \<le> 50" "\<forall>s \<in> set ss. strip s \<noteq> []"
  shows "snd (get_videos e (JArr (map JStr ss)) JNull) =
           [Build, VideosList ''snippet'' (join_with '','' ss)]"
proof -
  have ids: "\<not> list_ex bad_video_id (map JStr ss)"
    using assms(6) by (simp add: list_ex_iff bad_video_id_JStr)
  have names: "set_error [JStr ''snippet''] = None"
    by (simp add: set_error_def)
  have valid: "\<not> list_ex (\<lambda>p. p \<notin> JStr ` set valid_parts) [JStr ''snippet'']"
    by (simp add: valid_parts_def)
  have tr: "snd (get_videos_try e (JArr (map JStr ss)) (JArr [JStr ''snippet''])) =
      [Build, VideosList ''snippet'' (join_with '','' ss)]"
    using assms(1-3)
    by (simp add: get_videos_try_def build_youtube_service_def validate_youtube_api_key_def
          py_join_def ebind_def emap_the_str)
  have "snd (get_videos e (JArr (map JStr ss)) JNull) =
      snd (get_videos_try e (JArr (map JStr ss)) (JArr [JStr ''snippet'']))"
    using assms(4,5) ids names valid
    by (simp add: get_videos_def split: prod.splits sum.splits)
  then show ?thesis by (simp only: tr)
qed

text \<open>
  Claim C9, as stated, fails where \<^verbatim>\<open>parts\<close> has an entry that cannot be hashed: the
  check is \<^verbatim>\<open>set(parts) - valid_parts\<close>, and building the set comes first. With
  \<^verbatim>\<open>parts = ["bogus", ["x"]]\<close> the list has a name outside the valid ones, and what
  \<^verbatim>\<open>get_videos\<close> raises is a \<^verbatim>\<open>TypeError\<close>.
\<close>

theorem get_videos_parts_counterexample:
  "''bogus'' \<notin> set valid_parts
   \<and> get_videos example_env (JArr [JStr ''abc'']) (JArr [JStr ''bogus'', JArr [JStr ''x'']]) =
       (Inl (TypeError (''unhashable type: '' @ [CHR 0x27] @ ''list'' @ [CHR 0x27])), [])"
  by (simp add: valid_parts_def get_videos_def bad_video_id_def strip_def is_space_def
        set_error_def)

text \<open>
  Claim C9, amended. \<^verbatim>\<open>get_videos\<close> raises a \<^verbatim>\<open>ValueError\<close>, with no call to the client
  library made, whenever the list \<^verbatim>\<open>ids\<close> is empty, has more than 50 entries or has an
  entry that is not a non-empty string, and whenever \<^verbatim>\<open>parts\<close> is a list of hashable
  values (strings, numbers, booleans, null) with an entry outside the twelve valid part
  names. Each check has its own message, in the order of the source. With \<^verbatim>\<open>parts\<close>
  omitted it behaves as with \<^verbatim>\<open>["snippet"]\<close>: for identifiers that pass the checks, with
  an API key set and a client built, the one request made is for the part \<^verbatim>\<open>snippet\<close>.
\<close>

theorem get_videos_checks:
  "(xs = [] \<longrightarrow>
      get_videos e (JArr xs) parts =
        (Inl (ValueError ''ids parameter is required and cannot be empty''), []))
   \<and> (50 < length xs \<longrightarrow>
      get_videos e (JArr xs) parts =
        (Inl (ValueError ''Maximum 50 video IDs allowed per request''), []))
   \<and> (xs \<noteq> [] \<and> length xs \<le> 50 \<and> (\<exists>v \<in> set xs. \<not> nonempty_string v) \<longrightarrow>
      get_videos e (JArr xs) parts =
        (Inl (ValueError ''All video IDs must be non-empty strings''), []))
   \<and> ((\<forall>p \<in> set ps. hashable p) \<and> (\<exists>p \<in> set ps. p \<notin> JStr ` set valid_parts) \<longrightarrow>
      (\<exists>msg. get_videos e (JArr xs) (JArr ps) = (Inl (ValueError msg), [])))
   \<and> (xs \<noteq> [] \<and> length xs \<le> 50 \<and> (\<forall>v \<in> set xs. \<not> bad_video_id v) \<and>
       (\<forall>p \<in> set ps. hashable p) \<and> (\<exists>p \<in> set ps. p \<notin> JStr ` set valid_parts) \<longrightarrow>
      get_videos e (JArr xs) (JArr ps) = (Inl (ValueError ''Invalid parts''), []))
   \<and> get_videos e ids JNull = get_videos e ids (JArr [JStr ''snippet''])
   \<and> (YOUTUBE_API_KEY e = Some key \<and> key \<noteq> [] \<and> build_raises e = None \<and>
       ss \<noteq> [] \<and> length ss \<le> 50 \<and> (\<forall>s \<in> set ss. strip s \<noteq> []) \<longrightarrow>
      snd (get_videos e (JArr (map JStr ss)) JNull) =
        [Build, VideosList ''snippet'' (join_with '','' ss)])
   \<and> length valid_parts = 12 \<and> distinct valid_parts"
proof (intro conjI impI)
  show "get_videos e (JArr xs) parts =
      (Inl (ValueError ''ids parameter is required and cannot be empty''), [])" if "xs = []"
    using that by (simp add: get_videos_empty)
  show "get_videos e (JArr xs) parts =
      (Inl (ValueError ''Maximum 50 video IDs allowed per request''), [])" if "50 < length xs"
    using that by (rule get_videos_many)
  show "get_videos e (JArr xs) parts =
      (Inl (ValueError ''All video IDs must be non-empty strings''), [])"
    if "xs \<noteq> [] \<and> length xs \<le> 50 \<and> (\<exists>v \<in> set xs. \<not> nonempty_string v)"
    using that by (simp add: get_videos_bad_entry)
  show "\<exists>msg. get_videos e (JArr xs) (JArr ps) = (Inl (ValueError msg), [])"
    if "(\<forall>p \<in> set ps. hashable p) \<and> (\<exists>p \<in> set ps. p \<notin> JStr ` set valid_parts)"
    using that get_videos_parts_rejected by blast
  show "get_videos e (JArr xs) (JArr ps) = (Inl (ValueError ''Invalid parts''), [])"
    if "xs \<noteq> [] \<and> length xs \<le> 50 \<and> (\<forall>v \<in> set xs. \<not> bad_video_id v) \<and>
       (\<forall>p \<in> set ps. hashable p) \<and> (\<exists>p \<in> set ps. p \<notin> JStr ` set valid_parts)"
    using that get_videos_invalid_parts by blast
  show "get_videos e ids JNull = get_videos e ids (JArr [JStr ''snippet''])"
    by (rule get_videos_default_parts)
  show "snd (get_videos e (JArr (map JStr ss)) JNull) =
        [Build, VideosList ''snippet'' (join_with '','' ss)]"
    if "YOUTUBE_API_KEY e = Some key \<and> key \<noteq> [] \<and> build_raises e = None \<and>
       ss \<noteq> [] \<and> length ss \<le> 50 \<and> (\<forall>s \<in> set ss. strip s \<noteq> [])"
    using that get_videos_default_call [of e key ss] by blast
  show "length valid_parts = 12" by (simp add: valid_parts_def)
  show "distinct valid_parts" by (simp add: valid_parts_def)
qed

theorem get_videos_checks_witness:
  "get_videos example_env (JArr []) JNull =
     (Inl (ValueError ''ids parameter is required and cannot be empty''), [])
   \<and> get_videos example_env (JArr (replicate 51 (JStr ''a''))) JNull =
     (Inl (ValueError ''Maximum 50 video IDs allowed per request''), [])
   \<and> get_videos example_env (JArr [JStr ''abc'', JInt 5]) JNull =
     (Inl (ValueError ''All video IDs must be non-empty strings''), [])
   \<and> get_videos example_env (JArr [JStr ''abc'']) (JArr [JStr ''snippet'', JStr ''bogus'']) =
     (Inl (ValueError ''Invalid parts''), [])
   \<and> snd (get_videos example_env (JArr (map JStr [''abc'', ''d''])) JNull) =
     [Build, VideosList ''snippet'' ''abc,d'']"
proof -
  have many: "50 < length (replicate 51 (JStr ''a''))"
    by (simp only: length_replicate)
  have entry: "[JStr ''abc'', JInt 5] \<noteq> [] \<and> length [JStr ''abc'', JInt 5] \<le> 50 \<and>
      (\<exists>v \<in> set [JStr ''abc'', JInt 5]. \<not> nonempty_string v)"
    by simp
  have part: "[JStr ''abc''] \<noteq> [] \<and> length [JStr ''abc''] \<le> 50 \<and>
      (\<forall>v \<in> set [JStr ''abc'']. \<not> bad_video_id v) \<and>
      (\<forall>p \<in> set [JStr ''snippet'', JStr ''bogus'']. hashable p) \<and>
      (\<exists>p \<in> set [JStr ''snippet'', JStr ''bogus'']. p \<notin> JStr ` set valid_parts)"
    by (simp add: bad_video_id_JStr strip_def is_space_def valid_parts_def)
  have call: "YOUTUBE_API_KEY example_env = Some ''key'' \<and> ''key'' \<noteq> [] \<and>
      build_raises example_env = None \<and> [''abc'', ''d''] \<noteq> [] \<and> length [''abc'', ''d''] \<le> 50 \<and>
      (\<forall>s \<in> set [''abc'', ''d'']. strip s \<noteq> [])"
    by (simp add: example_env_def strip_def is_space_def)
  have joined: "join_with '','' [''abc'', ''d''] = ''abc,d''"
    by simp
  have a: "get_videos example_env (JArr []) JNull =
     (Inl (ValueError ''ids parameter is required and cannot be empty''), [])"
    by (rule get_videos_checks [where xs = "[]" and e = example_env and parts = JNull,
          THEN conjunct1, THEN mp, OF refl])
  have b: "get_videos example_env (JArr (replicate 51 (JStr ''a''))) JNull =
     (Inl (ValueError ''Maximum 50 video IDs allowed per request''), [])"
    by (rule get_videos_checks [where xs = "replicate 51 (JStr ''a'')" and e = example_env
          and parts = JNull, THEN conjunct2, THEN conjunct1, THEN mp, OF many])
  have c: "get_videos example_env (JArr [JStr ''abc'', JInt 5]) JNull =
     (Inl (ValueError ''All video IDs must be non-empty strings''), [])"
    by (rule get_videos_checks [where xs = "[JStr ''abc'', JInt 5]" and e = example_env
          and parts = JNull, THEN conjunct2, THEN conjunct2, THEN conjunct1, THEN mp, OF entry])
  have d: "get_videos example_env (JArr [JStr ''abc'']) (JArr [JStr ''snippet'', JStr ''bogus'']) =
     (Inl (ValueError ''Invalid parts''), [])"
    by (rule get_videos_checks [where xs = "[JStr ''abc'']" and e = example_env
          and ps = "[JStr ''snippet'', JStr ''bogus'']",
          THEN conjunct2, THEN conjunct2, THEN conjunct2, THEN conjunct2, THEN conjunct1,
          THEN mp, OF part])
  have "snd (get_videos example_env (JArr (map JStr [''abc'', ''d''])) JNull) =
     [Build, VideosList ''snippet'' (join_with '','' [''abc'', ''d''])]"
    by (rule get_videos_checks [where e = example_env and key = "''key''"
          and ss = "[''abc'', ''d'']",
          THEN conjunct2, THEN conjunct2, THEN conjunct2, THEN conjunct2, THEN conjunct2,
          THEN conjunct2, THEN conjunct1, THEN mp, OF call])
  then have e: "snd (get_videos example_env (JArr (map JStr [''abc'', ''d''])) JNull) =
     [Build, VideosList ''snippet'' ''abc,d'']"
    by (simp only: joined)
  show ?thesis
    by (intro conjI) (rule a, rule b, rule c, rule d, rule e)
qed

section \<open>Properties of the dispatcher\<close>

lemma handle_call_tool_registered:
  "map_of tool_functions name = Some tool_function \<Longrightarrow>
   handle_call_tool tool_functions name arguments =
     ((case tool_function (given_arguments arguments) of
         Inr result \<Rightarrow> Inr result
       | Inl x \<Rightarrow> Inl (ValueError (''Tool execution error: '' @ exn_str x))),
      [(name, given_arguments arguments)])"
  by (simp add: handle_call_tool_def given_arguments_def Let_def split: sum.splits)



text \<open>
  Claim C6. For every tool name that is not a key of the handler registry,
  \<^verbatim>\<open>handle_call_tool\<close> raises the unknown-tool error
  \<^verbatim>\<open>ValueError("Unknown tool: <name>")\<close> and invokes no handler.
\<close>

theorem unknown_tool_rejected:
  "name \<notin> fst ` set tool_functions \<Longrightarrow>
     handle_call_tool tool_functions name arguments =
       (Inl (ValueError (''Unknown tool: '' @ name)), [])"
proof -
  assume "name \<notin> fst ` set tool_functions"
  then have "map_of tool_functions name = None" by (simp add: map_of_eq_None_iff)
  then show ?thesis by (simp add: handle_call_tool_def)
qed


theorem unknown_tool_rejected_witness:
  "handle_call_tool example_registry ''delete_video'' (Some [(''id'', JStr ''abc'')]) =
     (Inl (ValueError ''Unknown tool: delete_video''), [])"
proof -
  have "''delete_video'' \<notin> fst ` set example_registry"
    by (simp add: example_registry_def TOOL_FUNCTIONS_def)
  from unknown_tool_rejected [OF this, of "Some [(''id'', JStr ''abc'')]"]
  show ?thesis by simp
qed

lemma example_invalid: "\<not> valid (validate_input [(''ids'', JStr ''abc'')] example_input_schema)"
  by (simp add: validate_input_def example_input_schema_def outcome_of_def numeral_eq_Suc type_matches_def)

lemma example_get_videos:
  "get_videos_tool example_env [(''ids'', JStr ''abc'')] =
     Inr (videos_result [JObj [(''kind'', JStr ''youtube#video'')]])"
  by (simp add: get_videos_tool_def get_videos_def get_videos_try_def build_youtube_service_def
       validate_youtube_api_key_def example_env_def bad_video_id_def strip_def is_space_def
       py_join_def ebind_def valid_parts_def add_duration_seconds_def set_error_def)


text \<open>
  Claim C1, as stated, fails: \<^verbatim>\<open>handle_call_tool\<close> does not validate the arguments. The
  arguments \<^verbatim>\<open>{"ids": "abc"}\<close> fail validation against a schema that declares \<^verbatim>\<open>ids\<close> an
  array of strings, yet the handler \<^verbatim>\<open>get_videos\<close> is invoked with them, asks the API for
  the videos \<^verbatim>\<open>a,b,c\<close> and its result is returned as a success.
\<close>

theorem input_validation_counterexample:
  "\<not> valid (validate_input [(''ids'', JStr ''abc'')] example_input_schema) \<and>
   handle_call_tool example_registry ''get_videos'' (Some [(''ids'', JStr ''abc'')]) =
     (Inr (videos_result [JObj [(''kind'', JStr ''youtube#video'')]]),
      [(''get_videos'', [(''ids'', JStr ''abc'')])])"
  by (simp add: example_invalid handle_call_tool_def example_registry_def TOOL_FUNCTIONS_def example_get_videos)


text \<open>
  Claim C1, amended. For every registered tool and every arguments mapping that fails
  structural validation against the tool's input schema, \<^verbatim>\<open>handle_call_tool\<close> still
  invokes the handler, once, with those arguments; it returns the handler's result, or a
  \<^verbatim>\<open>ValueError("Tool execution error: ...")\<close> carrying the text of the exception the handler
  raised. It has no input validation error of its own.
\<close>

theorem invalid_arguments_reach_handler:
  "map_of tool_functions name = Some tool_function \<Longrightarrow>
   \<not> valid (validate_input arguments input_schema) \<Longrightarrow>
   handle_call_tool tool_functions name (Some arguments) =
     ((case tool_function arguments of
         Inr result \<Rightarrow> Inr result
       | Inl x \<Rightarrow> Inl (ValueError (''Tool execution error: '' @ exn_str x))),
      [(name, arguments)])"
  using handle_call_tool_registered [of tool_functions name tool_function "Some arguments"]
  by (simp add: given_arguments_def)


theorem invalid_arguments_reach_handler_witness:
  "handle_call_tool example_registry ''get_videos'' (Some [(''ids'', JStr ''abc'')]) =
     (Inr (videos_result [JObj [(''kind'', JStr ''youtube#video'')]]),
      [(''get_videos'', [(''ids'', JStr ''abc'')])])"
proof -
  have reg: "map_of example_registry ''get_videos'' = Some (get_videos_tool example_env)"
    by (simp add: example_registry_def TOOL_FUNCTIONS_def)
  from invalid_arguments_reach_handler [OF reg example_invalid]
  show ?thesis by (simp add: example_get_videos)
qed


lemma example_result_invalid:
  "\<not> valid (validate_output (videos_result [JObj [(''kind'', JStr ''youtube#video'')]])
            example_output_schema example_definitions)"
  by (simp add: validate_output_def example_output_schema_def example_definitions_def
        outcome_of_def numeral_eq_Suc type_matches_def videos_result_def)

lemma example_get_videos_list:
  "get_videos_tool example_env [(''ids'', JArr [JStr ''abc''])] =
     Inr (videos_result [JObj [(''kind'', JStr ''youtube#video'')]])"
  by (simp add: get_videos_tool_def get_videos_def get_videos_try_def build_youtube_service_def
       validate_youtube_api_key_def example_env_def bad_video_id_def strip_def is_space_def
       py_join_def ebind_def valid_parts_def add_duration_seconds_def set_error_def)

text \<open>
  Claim C2, as stated, fails: \<^verbatim>\<open>handle_call_tool\<close> does not validate the result. The
  API answers with an item that has no \<^verbatim>\<open>id\<close>; the result of \<^verbatim>\<open>get_videos\<close> then does not
  conform to an output schema whose items refer to a definition that requires \<^verbatim>\<open>id\<close>, and
  \<^verbatim>\<open>handle_call_tool\<close> returns it all the same.
\<close>

theorem output_validation_counterexample:
  "\<not> valid (validate_output (videos_result [JObj [(''kind'', JStr ''youtube#video'')]])
            example_output_schema example_definitions) \<and>
   handle_call_tool example_registry ''get_videos'' (Some [(''ids'', JArr [JStr ''abc''])]) =
     (Inr (videos_result [JObj [(''kind'', JStr ''youtube#video'')]]),
      [(''get_videos'', [(''ids'', JArr [JStr ''abc''])])])"
  by (simp add: example_result_invalid handle_call_tool_def example_registry_def
        TOOL_FUNCTIONS_def example_get_videos_list)

text \<open>
  Claim C2, amended. For every registered tool whose handler returns a non-null result,
  \<^verbatim>\<open>handle_call_tool\<close> returns that result verbatim, with no transformation, both when the
  result does not conform to the tool's output schema (with the shared definitions
  resolved) and when it does. It has no output validation error.
\<close>

theorem result_returned_verbatim:
  "map_of tool_functions name = Some tool_function \<Longrightarrow>
   tool_function (given_arguments arguments) = Inr result \<Longrightarrow>
   result \<noteq> JNull \<Longrightarrow>
   (\<not> valid (validate_output result output_schema definitions) \<longrightarrow>
      handle_call_tool tool_functions name arguments = (Inr result, [(name, given_arguments arguments)]))
   \<and> (valid (validate_output result output_schema definitions) \<longrightarrow>
      handle_call_tool tool_functions name arguments = (Inr result, [(name, given_arguments arguments)]))"
  by (simp add: handle_call_tool_registered)

theorem result_returned_verbatim_witness:
  "\<not> valid (validate_output (videos_result [JObj [(''kind'', JStr ''youtube#video'')]])
            example_output_schema example_definitions)
   \<and> valid (validate_output (videos_result [JObj [(''kind'', JStr ''youtube#video'')]])
            example_open_schema [])
   \<and> handle_call_tool example_registry ''get_videos'' (Some [(''ids'', JArr [JStr ''abc''])]) =
     (Inr (videos_result [JObj [(''kind'', JStr ''youtube#video'')]]),
      [(''get_videos'', [(''ids'', JArr [JStr ''abc''])])])"
proof -
  have reg: "map_of example_registry ''get_videos'' = Some (get_videos_tool example_env)"
    by (simp add: example_registry_def TOOL_FUNCTIONS_def)
  have res: "get_videos_tool example_env (given_arguments (Some [(''ids'', JArr [JStr ''abc''])])) =
      Inr (videos_result [JObj [(''kind'', JStr ''youtube#video'')]])"
    by (simp add: given_arguments_def example_get_videos_list)
  have nonnull: "videos_result [JObj [(''kind'', JStr ''youtube#video'')]] \<noteq> JNull"
    by (simp add: videos_result_def)
  have ok: "valid (validate_output (videos_result [JObj [(''kind'', JStr ''youtube#video'')]])
      example_open_schema [])"
    by (simp add: validate_output_def example_open_schema_def outcome_of_def numeral_eq_Suc
          type_matches_def videos_result_def)
  from result_returned_verbatim
      [where output_schema = example_output_schema and definitions = example_definitions,
       OF reg res nonnull]
    result_returned_verbatim
      [where output_schema = example_open_schema and definitions = "[]", OF reg res nonnull]
    example_result_invalid ok
  show ?thesis by (simp add: given_arguments_def)
qed

section \<open>Properties of \<^verbatim>\<open>get_transcript\<close>\<close>

lemma strip_Nil: "strip [] = []" by (simp add: strip_def)

lemma try_requested_eq:
  "try_requested tracks language =
     (case requested_code language of None \<Rightarrow> None
      | Some c \<Rightarrow> map_option (\<lambda>t. (t, c)) (find_transcript tracks c))"
  by (auto simp: try_requested_def requested_code_def strip_Nil split: option.splits)

lemma find_transcript_None: "\<not> has_code tracks c \<Longrightarrow> find_transcript tracks c = None"
  by (auto simp: find_transcript_def has_code_def find_None_iff split: option.splits)

lemma find_transcript_Some:
  assumes "has_code tracks c"
  shows "\<exists>t \<in> set tracks. language_code t = c \<and> find_transcript tracks c = Some t"
proof (cases "find (\<lambda>t. \<not> is_generated t \<and> language_code t = c) tracks")
  case (Some t)
  then have "t \<in> set tracks \<and> language_code t = c"
    by (auto simp: find_Some_iff)
  then show ?thesis using Some by (auto simp: find_transcript_def)
next
  case None
  obtain u where u: "u \<in> set tracks" "language_code u = c" using assms by (auto simp: has_code_def)
  then have "is_generated u" using None by (auto simp: find_None_iff)
  then have "find (\<lambda>t. is_generated t \<and> language_code t = c) tracks \<noteq> None"
    using u by (auto simp: find_None_iff)
  then obtain t where t: "find (\<lambda>t. is_generated t \<and> language_code t = c) tracks = Some t" by auto
  then have "t \<in> set tracks \<and> language_code t = c" by (auto simp: find_Some_iff)
  then show ?thesis using None t by (auto simp: find_transcript_def)
qed

lemma select_requested:
  assumes "requested_code language = Some c" "has_code tracks c"
  shows "\<exists>t \<in> set tracks. language_code t = c \<and> select_transcript tracks language = Some (t, c)"
  using find_transcript_Some[OF assms(2)] assms(1)
  by (auto simp: select_transcript_def try_requested_eq)

lemma try_requested_None: "no_requested_track tracks language \<Longrightarrow> try_requested tracks language = None"
  by (auto simp: no_requested_track_def try_requested_eq find_transcript_None split: option.splits)

lemma select_english:
  assumes "no_requested_track tracks language" "has_code tracks ''en''"
  shows "\<exists>t \<in> set tracks. language_code t = ''en'' \<and> select_transcript tracks language = Some (t, ''en'')"
  using find_transcript_Some[OF assms(2)] try_requested_None[OF assms(1)]
  by (auto simp: select_transcript_def try_english_def)

lemma select_manual:
  assumes "no_requested_track tracks language" "\<not> has_code tracks ''en''"
    "find (\<lambda>t. \<not> is_generated t) tracks = Some t"
  shows "select_transcript tracks language = Some (t, language_code t)"
  using try_requested_None[OF assms(1)] find_transcript_None[OF assms(2)] assms(3)
  by (simp add: select_transcript_def try_english_def try_manual_def)

lemma select_any:
  assumes "no_requested_track tracks language" "\<not> has_code tracks ''en''"
    "find (\<lambda>t. \<not> is_generated t) tracks = None"
  shows "select_transcript tracks language = (case tracks of [] \<Rightarrow> None | t # ts \<Rightarrow> Some (t, language_code t))"
  using try_requested_None[OF assms(1)] find_transcript_None[OF assms(2)] assms(3)
  by (simp add: select_transcript_def try_english_def try_manual_def try_any_def)

lemma select_in_set:
  "select_transcript tracks language = Some (t, c) \<Longrightarrow> t \<in> set tracks"
  by (auto simp: select_transcript_def try_requested_def try_english_def try_manual_def try_any_def
        find_transcript_def find_Some_iff
      split: option.splits if_splits list.splits)

lemma select_nonempty: "tracks \<noteq> [] \<Longrightarrow> select_transcript tracks language \<noteq> None"
  by (cases tracks) (auto simp: select_transcript_def try_any_def split: option.splits)

lemma get_transcript_selected:
  assumes "strip videoId \<noteq> []" "api_list (strip videoId) = Inr tracks"
  shows "get_transcript api_list videoId language =
     (case select_transcript tracks language of
        None \<Rightarrow> Inr (not_available (strip videoId))
      | Some (t, c) \<Rightarrow>
          (case fetch t of
             Inl x \<Rightarrow> get_transcript_except (strip videoId) x
           | Inr d \<Rightarrow> Inr \<lparr>r_videoId = strip videoId, r_transcript = d, r_available = True, r_language = Some c\<rparr>))"
proof -
  have ne: "videoId \<noteq> []" using assms(1) by (auto simp: strip_Nil)
  have m: "map (\<lambda>entry. \<lparr>text_of = text_of entry, start = start entry, duration = duration entry\<rparr>) d = d" for d :: "'a entry list"
    by (induction d) auto
  show ?thesis using assms ne
    by (auto simp: get_transcript_def get_transcript_try_def Let_def m split: option.splits sum.splits)
qed


lemma get_transcript_signal:
  assumes "strip videoId \<noteq> []"
  shows "get_transcript api_list videoId language =
     (case source_signal api_list (strip videoId) language of
        None \<Rightarrow> get_transcript api_list videoId language
      | Some x \<Rightarrow> get_transcript_except (strip videoId) x)"
proof -
  have ne: "videoId \<noteq> []" using assms by (auto simp: strip_Nil)
  show ?thesis using assms ne
    by (auto simp: get_transcript_def get_transcript_try_def source_signal_def Let_def
        split: option.splits sum.splits)
qed

lemma get_transcript_no_signal:
  assumes "strip videoId \<noteq> []" "source_signal api_list (strip videoId) language = None"
  shows "\<exists>r. get_transcript api_list videoId language = Inr r"
proof -
  have ne: "videoId \<noteq> []" using assms by (auto simp: strip_Nil)
  show ?thesis using assms ne
    by (auto simp: get_transcript_def get_transcript_try_def source_signal_def Let_def
        split: option.splits sum.splits)
qed

lemma get_transcript_except_other:
  "\<not> transcript_signal x \<Longrightarrow>
   get_transcript_except video_id x =
     Inl (ValueError (''Unexpected error during transcript retrieval: '' @ exn_str x))"
  by (cases x) simp_all


text \<open>
  Claim C3, as stated, fails where the requested language has surrounding whitespace:
  the code compares the language codes with \<^verbatim>\<open>language.strip()\<close>. With the tracks
  \<^verbatim>\<open>[{en, generated}, {es, manual}]\<close> and the requested language \<^verbatim>\<open>" es "\<close> no track has a
  language code equal to the requested language and a track with the code \<^verbatim>\<open>en\<close> exists,
  yet the track selected is the Spanish one.
\<close>

theorem transcript_priority_counterexample:
  "language_code en_generated \<noteq> '' es '' \<and> language_code es_manual \<noteq> '' es ''
   \<and> language_code en_generated = ''en''
   \<and> get_transcript english_and_spanish ''abc'' (Some '' es '') =
       Inr \<lparr>r_videoId = ''abc'',
            r_transcript = [\<lparr>text_of = ''hola'', start = 0, duration = 2\<rparr>],
            r_available = True, r_language = Some ''es''\<rparr>"
  by (simp add: get_transcript_def get_transcript_try_def select_transcript_def try_requested_def
        find_transcript_def en_generated_def es_manual_def strip_def is_space_def
        english_and_spanish_def)

text \<open>
  Claim C3, amended. For every list of tracks and every optional requested language,
  \<^verbatim>\<open>get_transcript\<close> selects by the fixed priority: a track whose language code equals the
  requested language with its surrounding whitespace stripped, when that argument is given and
  not blank; else a track with the language code \<^verbatim>\<open>en\<close> if one exists; else the first
  track in list order that is not generated; else the first track in list order. It
  fetches the track selected and reports its code; when the list is empty it returns the
  normal result with an empty transcript, \<^verbatim>\<open>available\<close> false and no language.
\<close>

theorem transcript_priority:
  "(requested_code language = Some c \<and> has_code tracks c \<longrightarrow>
      (\<exists>t \<in> set tracks. language_code t = c \<and> select_transcript tracks language = Some (t, c)))
   \<and> (no_requested_track tracks language \<and> has_code tracks ''en'' \<longrightarrow>
      (\<exists>t \<in> set tracks. language_code t = ''en'' \<and> select_transcript tracks language = Some (t, ''en'')))
   \<and> (no_requested_track tracks language \<and> \<not> has_code tracks ''en'' \<and>
        find (\<lambda>t. \<not> is_generated t) tracks = Some t \<longrightarrow>
      select_transcript tracks language = Some (t, language_code t))
   \<and> (no_requested_track tracks language \<and> \<not> has_code tracks ''en'' \<and>
        find (\<lambda>t. \<not> is_generated t) tracks = None \<and> tracks = t # ts \<longrightarrow>
      select_transcript tracks language = Some (t, language_code t))
   \<and> (tracks \<noteq> [] \<longrightarrow>
      (\<exists>t \<in> set tracks. \<exists>c'. select_transcript tracks language = Some (t, c')))
   \<and> select_transcript [] language = None
   \<and> (strip videoId \<noteq> [] \<and> api_list (strip videoId) = Inr tracks \<longrightarrow>
      get_transcript api_list videoId language =
        (case select_transcript tracks language of
           None \<Rightarrow>
             Inr \<lparr>r_videoId = strip videoId, r_transcript = [], r_available = False, r_language = None\<rparr>
         | Some (t, c) \<Rightarrow>
             (case fetch t of
                Inl x \<Rightarrow> get_transcript_except (strip videoId) x
              | Inr d \<Rightarrow>
                  Inr \<lparr>r_videoId = strip videoId, r_transcript = d, r_available = True,
                       r_language = Some c\<rparr>)))"
proof (intro conjI impI)
  show "\<exists>t \<in> set tracks. language_code t = c \<and> select_transcript tracks language = Some (t, c)"
    if "requested_code language = Some c \<and> has_code tracks c"
    using that select_requested by blast
  show "\<exists>t \<in> set tracks. language_code t = ''en'' \<and> select_transcript tracks language = Some (t, ''en'')"
    if "no_requested_track tracks language \<and> has_code tracks ''en''"
    using that select_english by blast
  show "select_transcript tracks language = Some (t, language_code t)"
    if "no_requested_track tracks language \<and> \<not> has_code tracks ''en'' \<and>
        find (\<lambda>t. \<not> is_generated t) tracks = Some t"
    using that select_manual by blast
  show "select_transcript tracks language = Some (t, language_code t)"
    if "no_requested_track tracks language \<and> \<not> has_code tracks ''en'' \<and>
        find (\<lambda>t. \<not> is_generated t) tracks = None \<and> tracks = t # ts"
  proof -
    from that have "select_transcript tracks language =
        (case tracks of [] \<Rightarrow> None | t # ts \<Rightarrow> Some (t, language_code t))"
      using select_any by blast
    with that show ?thesis by simp
  qed
  show "\<exists>t \<in> set tracks. \<exists>c'. select_transcript tracks language = Some (t, c')"
    if "tracks \<noteq> []"
  proof -
    from select_nonempty [OF that, of language]
    obtain t c' where "select_transcript tracks language = Some (t, c')" by auto
    then show ?thesis using select_in_set by blast
  qed
  show "select_transcript [] language = None"
    by (simp add: select_transcript_def try_requested_def try_english_def try_manual_def
          try_any_def find_transcript_def split: option.splits)
  show "get_transcript api_list videoId language =
        (case select_transcript tracks language of
           None \<Rightarrow>
             Inr \<lparr>r_videoId = strip videoId, r_transcript = [], r_available = False, r_language = None\<rparr>
         | Some (t, c) \<Rightarrow>
             (case fetch t of
                Inl x \<Rightarrow> get_transcript_except (strip videoId) x
              | Inr d \<Rightarrow>
                  Inr \<lparr>r_videoId = strip videoId, r_transcript = d, r_available = True,
                       r_language = Some c\<rparr>))"
    if "strip videoId \<noteq> [] \<and> api_list (strip videoId) = Inr tracks"
    using that get_transcript_selected [of videoId api_list tracks language]
    by (simp add: not_available_def split: option.splits)
qed

lemma strip_abc: "strip ''abc'' = ''abc''" "strip ''es'' = ''es''" "strip ''fr'' = ''fr''"
  by (simp_all add: strip_def is_space_def)

theorem transcript_priority_witness:
  "select_transcript [en_generated, es_manual] (Some ''es'') = Some (es_manual, ''es'')
   \<and> select_transcript [en_generated] (Some ''fr'') = Some (en_generated, ''en'')
   \<and> select_transcript [ja_manual, ko_generated] None = Some (ja_manual, ''ja'')
   \<and> select_transcript [ko_generated] None = Some (ko_generated, ''ko'')
   \<and> get_transcript (\<lambda>v. Inr ([] :: int track list)) ''abc'' None =
       Inr \<lparr>r_videoId = ''abc'', r_transcript = [], r_available = False, r_language = None\<rparr>"
proof -
  have a: "requested_code (Some ''es'') = Some ''es'' \<and> has_code [en_generated, es_manual] ''es''"
    by (simp add: requested_code_def strip_abc has_code_def es_manual_def)
  have b: "no_requested_track [en_generated] (Some ''fr'') \<and> has_code [en_generated] ''en''"
    by (simp add: no_requested_track_def requested_code_def strip_abc has_code_def en_generated_def)
  have c: "no_requested_track [ja_manual, ko_generated] None \<and> \<not> has_code [ja_manual, ko_generated] ''en''
      \<and> find (\<lambda>t. \<not> is_generated t) [ja_manual, ko_generated] = Some ja_manual"
    by (simp add: no_requested_track_def requested_code_def has_code_def ja_manual_def ko_generated_def)
  have d: "no_requested_track [ko_generated] None \<and> \<not> has_code [ko_generated] ''en''
      \<and> find (\<lambda>t. \<not> is_generated t) [ko_generated] = None \<and> [ko_generated] = ko_generated # []"
    by (simp add: no_requested_track_def requested_code_def has_code_def ko_generated_def)
  have e: "strip ''abc'' \<noteq> [] \<and> (\<lambda>v. Inr ([] :: int track list)) (strip ''abc'') = (Inr [] :: py_exn + int track list)"
    by (simp add: strip_abc)
  have neq: "language_code en_generated \<noteq> ''es''" by (simp add: en_generated_def)
  from transcript_priority [where language = "Some ''es''" and c = "''es''" and tracks = "[en_generated, es_manual]"] a neq
  have 1: "select_transcript [en_generated, es_manual] (Some ''es'') = Some (es_manual, ''es'')"
    by auto
  from transcript_priority [where language = "Some ''fr''" and tracks = "[en_generated]"] b
  have 2: "select_transcript [en_generated] (Some ''fr'') = Some (en_generated, ''en'')"
    by auto
  from transcript_priority [where language = None and tracks = "[ja_manual, ko_generated]" and t = ja_manual] c
  have "select_transcript [ja_manual, ko_generated] None = Some (ja_manual, language_code ja_manual)"
    by blast
  then have 3: "select_transcript [ja_manual, ko_generated] None = Some (ja_manual, ''ja'')"
    by (simp add: ja_manual_def)
  from transcript_priority [where language = None and tracks = "[ko_generated]" and t = ko_generated and ts = "[]"] d
  have "select_transcript [ko_generated] None = Some (ko_generated, language_code ko_generated)"
    by blast
  then have 4: "select_transcript [ko_generated] None = Some (ko_generated, ''ko'')"
    by (simp add: ko_generated_def)
  note inst = transcript_priority [where language = None and tracks = "[] :: int track list"
      and videoId = "''abc''" and api_list = "\<lambda>v. Inr []" and c = "''en''" and t = en_generated
      and ts = "[]"]
  from inst have n: "select_transcript ([] :: int track list) None = None"
    by blast
  from inst e have "get_transcript (\<lambda>v. Inr ([] :: int track list)) ''abc'' None =
      (case select_transcript ([] :: int track list) None of
         None \<Rightarrow>
           Inr \<lparr>r_videoId = strip ''abc'', r_transcript = [], r_available = False, r_language = None\<rparr>
       | Some (t, c) \<Rightarrow>
           (case fetch t of
              Inl x \<Rightarrow> get_transcript_except (strip ''abc'') x
            | Inr d \<Rightarrow>
                Inr \<lparr>r_videoId = strip ''abc'', r_transcript = d, r_available = True,
                     r_language = Some c\<rparr>))"
    by blast
  then have 5: "get_transcript (\<lambda>v. Inr ([] :: int track list)) ''abc'' None =
       Inr \<lparr>r_videoId = ''abc'', r_transcript = [], r_available = False, r_language = None\<rparr>"
    by (simp add: n strip_abc)
  from 1 2 3 4 5 show ?thesis by simp
qed


text \<open>
  Claim C5, as stated, fails in its "exactly": a caller-visible error is also raised when
  the transcript source raises any other exception. Here the source fails at
  \<^verbatim>\<open>api.list\<close> with an exception that is none of the three named ones; the video
  identifier is well formed, the source has not signalled that the video does not exist,
  and \<^verbatim>\<open>get_transcript\<close> raises a \<^verbatim>\<open>ValueError\<close>.
\<close>

theorem transcript_errors_counterexample:
  "source_signal unreachable_source ''abc'' None = Some (OtherException ''connection reset'')
   \<and> get_transcript unreachable_source ''abc'' None =
     Inl (ValueError ''Unexpected error during transcript retrieval: connection reset'')"
  by (simp add: source_signal_def get_transcript_def get_transcript_try_def strip_abc
        unreachable_source_def)

text \<open>
  Claim C5, amended. For a video identifier that is not blank, \<^verbatim>\<open>get_transcript\<close> returns
  the normal result with \<^verbatim>\<open>available\<close> false, no language and an empty transcript whenever
  the transcript source signals "transcripts disabled" or "no transcript found", at
  listing or at fetching; it raises a caller-visible \<^verbatim>\<open>ValueError\<close> whenever the source
  signals that the video is unavailable, and also, with another message, whenever the
  source raises any other exception; when the source raises nothing it returns a result.
  A blank video identifier is a \<^verbatim>\<open>ValueError\<close> too. So an error is raised exactly when the
  identifier is blank or the source raises something other than "transcripts disabled" and
  "no transcript found", and the unavailable video is never reported as a missing
  transcript nor the other way round.
\<close>

theorem transcript_errors:
  "(strip videoId \<noteq> [] \<longrightarrow>
      (source_signal api_list (strip videoId) language = Some (TranscriptsDisabled m) \<longrightarrow>
         get_transcript api_list videoId language =
           Inr \<lparr>r_videoId = strip videoId, r_transcript = [], r_available = False, r_language = None\<rparr>)
      \<and> (source_signal api_list (strip videoId) language = Some (NoTranscriptFound m) \<longrightarrow>
         get_transcript api_list videoId language =
           Inr \<lparr>r_videoId = strip videoId, r_transcript = [], r_available = False, r_language = None\<rparr>)
      \<and> (source_signal api_list (strip videoId) language = Some (VideoUnavailable m) \<longrightarrow>
         get_transcript api_list videoId language =
           Inl (ValueError (''Video '' @ strip videoId @ '' is unavailable or does not exist'')))
      \<and> (source_signal api_list (strip videoId) language = Some x \<and> \<not> transcript_signal x \<longrightarrow>
         get_transcript api_list videoId language =
           Inl (ValueError (''Unexpected error during transcript retrieval: '' @ exn_str x)))
      \<and> (source_signal api_list (strip videoId) language = None \<longrightarrow>
         (\<exists>r. get_transcript api_list videoId language = Inr r)))
   \<and> (strip videoId = [] \<longrightarrow>
      get_transcript api_list videoId language =
        Inl (ValueError ''videoId parameter is required and cannot be empty''))"
proof (intro conjI impI)
  assume ne: "strip videoId \<noteq> []"
  note sig = get_transcript_signal [OF ne, of api_list language]
  show "get_transcript api_list videoId language =
      Inr \<lparr>r_videoId = strip videoId, r_transcript = [], r_available = False, r_language = None\<rparr>"
    if "source_signal api_list (strip videoId) language = Some (TranscriptsDisabled m)"
    using sig that by (simp add: not_available_def)
  show "get_transcript api_list videoId language =
      Inr \<lparr>r_videoId = strip videoId, r_transcript = [], r_available = False, r_language = None\<rparr>"
    if "source_signal api_list (strip videoId) language = Some (NoTranscriptFound m)"
    using sig that by (simp add: not_available_def)
  show "get_transcript api_list videoId language =
      Inl (ValueError (''Video '' @ strip videoId @ '' is unavailable or does not exist''))"
    if "source_signal api_list (strip videoId) language = Some (VideoUnavailable m)"
    using sig that by simp
  show "get_transcript api_list videoId language =
      Inl (ValueError (''Unexpected error during transcript retrieval: '' @ exn_str x))"
    if "source_signal api_list (strip videoId) language = Some x \<and> \<not> transcript_signal x"
    using sig that by (simp add: get_transcript_except_other)
  show "\<exists>r. get_transcript api_list videoId language = Inr r"
    if "source_signal api_list (strip videoId) language = None"
    using get_transcript_no_signal [OF ne that] .
next
  assume "strip videoId = []"
  then show "get_transcript api_list videoId language =
      Inl (ValueError ''videoId parameter is required and cannot be empty'')"
    by (simp add: get_transcript_def)
qed


theorem transcript_errors_witness:
  "get_transcript (\<lambda>v. Inl (TranscriptsDisabled ''off'') :: py_exn + int track list) ''abc'' None =
     Inr \<lparr>r_videoId = ''abc'', r_transcript = [], r_available = False, r_language = None\<rparr>
   \<and> get_transcript (\<lambda>v. Inl (NoTranscriptFound ''none'') :: py_exn + int track list) ''abc'' None =
     Inr \<lparr>r_videoId = ''abc'', r_transcript = [], r_available = False, r_language = None\<rparr>
   \<and> get_transcript (\<lambda>v. Inl (VideoUnavailable ''gone'') :: py_exn + int track list) ''abc'' None =
     Inl (ValueError ''Video abc is unavailable or does not exist'')
   \<and> get_transcript (\<lambda>v. Inl (OtherException ''connection reset'') :: py_exn + int track list) ''abc'' None =
     Inl (ValueError ''Unexpected error during transcript retrieval: connection reset'')
   \<and> (\<exists>r. get_transcript (\<lambda>v. Inr [en_generated]) ''abc'' None = Inr r)
   \<and> get_transcript (\<lambda>v. Inr [en_generated]) [] None =
     Inl (ValueError ''videoId parameter is required and cannot be empty'')"
proof -
  have ne: "strip ''abc'' \<noteq> []"
    by (simp add: strip_abc)
  have blank: "strip [] = []"
    by (rule strip_Nil)
  have s1: "source_signal (\<lambda>v. Inl (TranscriptsDisabled ''off'') :: py_exn + int track list)
      (strip ''abc'') None = Some (TranscriptsDisabled ''off'')"
    by (simp add: source_signal_def)
  have s2: "source_signal (\<lambda>v. Inl (NoTranscriptFound ''none'') :: py_exn + int track list)
      (strip ''abc'') None = Some (NoTranscriptFound ''none'')"
    by (simp add: source_signal_def)
  have s3: "source_signal (\<lambda>v. Inl (VideoUnavailable ''gone'') :: py_exn + int track list)
      (strip ''abc'') None = Some (VideoUnavailable ''gone'')"
    by (simp add: source_signal_def)
  have s4: "source_signal (\<lambda>v. Inl (OtherException ''connection reset'') :: py_exn + int track list)
      (strip ''abc'') None = Some (OtherException ''connection reset'')
      \<and> \<not> transcript_signal (OtherException ''connection reset'')"
    by (simp add: source_signal_def)
  have s5: "source_signal (\<lambda>v. Inr [en_generated]) (strip ''abc'') None = None"
    by (simp add: source_signal_def select_transcript_def try_requested_def try_english_def
          find_transcript_def en_generated_def)
  from transcript_errors [where videoId = "''abc''" and language = None and m = "''off''"
      and x = "OtherException ''connection reset''"
      and api_list = "\<lambda>v. Inl (TranscriptsDisabled ''off'') :: py_exn + int track list"] ne s1
  have 1: "get_transcript (\<lambda>v. Inl (TranscriptsDisabled ''off'') :: py_exn + int track list) ''abc'' None =
     Inr \<lparr>r_videoId = strip ''abc'', r_transcript = [], r_available = False, r_language = None\<rparr>"
    by blast
  from transcript_errors [where videoId = "''abc''" and language = None and m = "''none''"
      and x = "OtherException ''connection reset''"
      and api_list = "\<lambda>v. Inl (NoTranscriptFound ''none'') :: py_exn + int track list"] ne s2
  have 2: "get_transcript (\<lambda>v. Inl (NoTranscriptFound ''none'') :: py_exn + int track list) ''abc'' None =
     Inr \<lparr>r_videoId = strip ''abc'', r_transcript = [], r_available = False, r_language = None\<rparr>"
    by blast
  from transcript_errors [where videoId = "''abc''" and language = None and m = "''gone''"
      and x = "OtherException ''connection reset''"
      and api_list = "\<lambda>v. Inl (VideoUnavailable ''gone'') :: py_exn + int track list"] ne s3
  have 3: "get_transcript (\<lambda>v. Inl (VideoUnavailable ''gone'') :: py_exn + int track list) ''abc'' None =
     Inl (ValueError (''Video '' @ strip ''abc'' @ '' is unavailable or does not exist''))"
    by blast
  from transcript_errors [where videoId = "''abc''" and language = None and m = "''gone''"
      and x = "OtherException ''connection reset''"
      and api_list = "\<lambda>v. Inl (OtherException ''connection reset'') :: py_exn + int track list"] ne s4
  have 4: "get_transcript (\<lambda>v. Inl (OtherException ''connection reset'') :: py_exn + int track list) ''abc'' None =
     Inl (ValueError (''Unexpected error during transcript retrieval: '' @ exn_str (OtherException ''connection reset'')))"
    by blast
  from transcript_errors [where videoId = "''abc''" and language = None and m = "''gone''"
      and x = "OtherException ''connection reset''"
      and api_list = "\<lambda>v. Inr [en_generated]"] ne s5
  have 5: "\<exists>r. get_transcript (\<lambda>v. Inr [en_generated]) ''abc'' None = Inr r"
    by blast
  from transcript_errors [where videoId = "[]" and language = None and m = "''gone''"
      and x = "OtherException ''connection reset''"
      and api_list = "\<lambda>v. Inr [en_generated]"] blank
  have 6: "get_transcript (\<lambda>v. Inr [en_generated]) [] None =
     Inl (ValueError ''videoId parameter is required and cannot be empty'')"
    by blast
  from 1 2 3 4 5 6 show ?thesis by (simp add: strip_abc)
qed


section \<open>Properties of \<^verbatim>\<open>load_tool_schemas\<close> and of the registries\<close>

lemma key_eq_JStr: "key_eq (JStr a) k \<longleftrightarrow> JStr a = k"
  by (cases k) simp_all

lemma dict_put_keys: "str_keys d \<Longrightarrow> fst ` set (dict_put d k v) = insert k (fst ` set d)"
proof (induction d)
  case Nil
  then show ?case by simp
next
  case (Cons kv d)
  obtain k' v' where kv: "kv = (k', v')" by (cases kv)
  from Cons.prems obtain n where n: "k' = JStr n" by (auto simp: str_keys_def kv)
  have d: "str_keys d" using Cons.prems by (auto simp: str_keys_def)
  show ?case using Cons.IH[OF d] by (auto simp: kv n key_eq_JStr)
qed

lemma dict_put_str_keys: "str_keys d \<Longrightarrow> str_keys (dict_put d (JStr n) v)"
  by (simp add: str_keys_def dict_put_keys[unfolded str_keys_def])

lemma foldl_dict_put_keys:
  "str_keys d \<Longrightarrow> str_keys entries \<Longrightarrow>
   fst ` set (foldl (\<lambda>d kv. dict_put d (fst kv) (snd kv)) d entries) = fst ` set d \<union> fst ` set entries"
proof (induction entries arbitrary: d)
  case Nil
  then show ?case by simp
next
  case (Cons kv entries)
  from Cons.prems(2) obtain n where n: "fst kv = JStr n" by (auto simp: str_keys_def)
  have e: "str_keys entries" using Cons.prems(2) by (auto simp: str_keys_def)
  have d': "str_keys (dict_put d (fst kv) (snd kv))"
    unfolding n by (rule dict_put_str_keys[OF Cons.prems(1)])
  show ?case using Cons.IH[OF d' e] dict_put_keys[OF Cons.prems(1), of "fst kv" "snd kv"]
    by auto
qed

lemma named_tool_JStr: "named_tool t \<Longrightarrow> \<exists>n. tool_name t = JStr n"
  by (cases "tool_name t") (auto simp: named_tool_def)

lemma tool_entry_named: "named_tool t \<Longrightarrow> tool_entry t = Inr (tool_name t, t)"
  by (auto simp: tool_entry_def named_tool_def tool_name_def ebind_def split: sum.splits json.splits)

lemma emap_tool_entry:
  "\<forall>t \<in> set tools. named_tool t \<Longrightarrow> emap tool_entry tools = Inr (map (\<lambda>t. (tool_name t, t)) tools)"
  by (induction tools) (auto simp: tool_entry_named ebind_def)

lemma tools_by_name_keys:
  assumes "py_getitem schema_data ''tools'' = Inr (JArr tools)" "\<forall>t \<in> set tools. named_tool t"
  shows "\<exists>S. tools_by_name schema_data = Inr S \<and> fst ` set S = tool_name ` set tools"
proof -
  let ?entries = "map (\<lambda>t. (tool_name t, t)) tools"
  have sk: "str_keys ?entries" using assms(2)
    by (auto simp: str_keys_def dest: named_tool_JStr)
  have "tools_by_name schema_data = Inr (foldl (\<lambda>d kv. dict_put d (fst kv) (snd kv)) [] ?entries)"
    using assms by (simp add: tools_by_name_def ebind_def emap_tool_entry)
  moreover have "fst ` set (foldl (\<lambda>d kv. dict_put d (fst kv) (snd kv)) [] ?entries) =
      fst ` set ([] :: (json \<times> json) list) \<union> fst ` set ?entries"
    by (rule foldl_dict_put_keys) (simp add: str_keys_def, rule sk)
  moreover have "fst ` set ?entries = tool_name ` set tools"
    by (simp add: image_image)
  ultimately show ?thesis by simp
qed

lemma load_first_found:
  "fst (load_tool_schemas fs package_path cwd_path) =
     (case first_found fs package_path cwd_path of
        FileNotFound \<Rightarrow> Inr []
      | ReadError x \<Rightarrow> Inl x
      | NotJson e \<Rightarrow> Inr []
      | Parsed schema_data \<Rightarrow> tools_by_name schema_data)"
  by (auto simp: load_tool_schemas_def first_found_def split: file_state.splits)

lemma handler_names:
  "fst ` set (TOOL_FUNCTIONS a b c) = {''search_videos'', ''get_videos'', ''get_transcript''}"
  by (auto simp: TOOL_FUNCTIONS_def)


lemma names_disagree_empty: "\<not> names_agree [] (TOOL_FUNCTIONS a b c)"
  by (simp add: names_agree_def TOOL_FUNCTIONS_def)

text \<open>
  Claim C4, as stated, fails: \<^verbatim>\<open>load_tool_schemas\<close> catches \<^verbatim>\<open>FileNotFoundError\<close> and
  \<^verbatim>\<open>JSONDecodeError\<close>. With no \<^verbatim>\<open>tools.json\<close> at either location, and with one that does
  not parse, it logs an error and returns the empty mapping; no error leaves it, the
  import completes and the server is set up with an empty schema registry.
\<close>

theorem load_error_counterexample:
  "load_tool_schemas no_files ''pkg/tools.json'' ''cwd/tools.json'' =
     (Inr [], [''tools.json file not found in package or working directory''])
   \<and> module_import no_files ''pkg/tools.json'' ''cwd/tools.json'' = Serving []
   \<and> load_tool_schemas unparsable_files ''pkg/tools.json'' ''cwd/tools.json'' =
     (Inr [], [''Error parsing tools.json at pkg/tools.json: Expecting value''])
   \<and> module_import unparsable_files ''pkg/tools.json'' ''cwd/tools.json'' = Serving []"
  by (simp add: load_tool_schemas_def module_import_def no_files_def unparsable_files_def)

text \<open>
  Claim C4, amended. \<^verbatim>\<open>load_tool_schemas\<close> does not fail when the backing resource is
  absent at both the primary and the fallback location, nor when the file at the first
  location that has one does not parse: it logs an error and returns the empty mapping,
  and the import of the module completes with an empty schema registry, with which the
  server then runs.
\<close>

theorem load_absent_or_malformed:
  "(fs package_path = FileNotFound \<and> fs cwd_path = FileNotFound \<longrightarrow>
      load_tool_schemas fs package_path cwd_path =
        (Inr [], [''tools.json file not found in package or working directory''])
      \<and> module_import fs package_path cwd_path = Serving [])
   \<and> (fs package_path = NotJson e \<longrightarrow>
      load_tool_schemas fs package_path cwd_path =
        (Inr [], [''Error parsing tools.json at '' @ package_path @ '': '' @ e])
      \<and> module_import fs package_path cwd_path = Serving [])
   \<and> (fs package_path = FileNotFound \<and> fs cwd_path = NotJson e \<longrightarrow>
      load_tool_schemas fs package_path cwd_path =
        (Inr [], [''Error parsing tools.json at '' @ cwd_path @ '': '' @ e])
      \<and> module_import fs package_path cwd_path = Serving [])"
  by (simp add: load_tool_schemas_def module_import_def)

theorem load_absent_or_malformed_witness:
  "module_import (\<lambda>p. FileNotFound) ''pkg/tools.json'' ''cwd/tools.json'' = Serving []
   \<and> module_import (\<lambda>p. NotJson ''Expecting value'') ''pkg/tools.json'' ''cwd/tools.json'' = Serving []
   \<and> module_import (\<lambda>p. if p = ''pkg/tools.json'' then FileNotFound else NotJson ''Expecting value'')
        ''pkg/tools.json'' ''cwd/tools.json'' = Serving []"
proof -
  from load_absent_or_malformed [where fs = "\<lambda>p. FileNotFound" and package_path = "''pkg/tools.json''"
      and cwd_path = "''cwd/tools.json''" and e = "''Expecting value''"]
  have 1: "module_import (\<lambda>p. FileNotFound) ''pkg/tools.json'' ''cwd/tools.json'' = Serving []"
    by simp
  from load_absent_or_malformed [where fs = "\<lambda>p. NotJson ''Expecting value''"
      and package_path = "''pkg/tools.json''" and cwd_path = "''cwd/tools.json''"
      and e = "''Expecting value''"]
  have 2: "module_import (\<lambda>p. NotJson ''Expecting value'') ''pkg/tools.json'' ''cwd/tools.json'' = Serving []"
    by simp
  from load_absent_or_malformed
      [where fs = "\<lambda>p. if p = ''pkg/tools.json'' then FileNotFound else NotJson ''Expecting value''"
      and package_path = "''pkg/tools.json''" and cwd_path = "''cwd/tools.json''"
      and e = "''Expecting value''"]
  have 3: "module_import (\<lambda>p. if p = ''pkg/tools.json'' then FileNotFound else NotJson ''Expecting value'')
        ''pkg/tools.json'' ''cwd/tools.json'' = Serving []"
    by simp
  from 1 2 3 show ?thesis by simp
qed

text \<open>
  Claim C8, as stated, fails: nothing in the server makes the two sets of names equal.
  With no \<^verbatim>\<open>tools.json\<close> at either location the schema registry is empty, while the
  handler registry has its three names.
\<close>

theorem registry_names_counterexample:
  "fst (load_tool_schemas no_files ''pkg/tools.json'' ''cwd/tools.json'') = Inr []
   \<and> map fst example_registry = [''search_videos'', ''get_videos'', ''get_transcript'']
   \<and> \<not> names_agree [] example_registry"
  by (simp add: load_tool_schemas_def example_registry_def TOOL_FUNCTIONS_def names_agree_def
        no_files_def)

text \<open>
  Claim C8, amended. The handler registry has exactly the tool names \<^verbatim>\<open>search_videos\<close>,
  \<^verbatim>\<open>get_videos\<close> and \<^verbatim>\<open>get_transcript\<close>. The schema registry has the names of the tool
  entries of the \<^verbatim>\<open>tools.json\<close> that is loaded (the first one found), so the two sets of
  names are equal exactly when that document declares exactly these three names; when no
  \<^verbatim>\<open>tools.json\<close> is found or the one found does not parse, the schema registry is empty
  and the sets differ. The server does not check the correspondence.
\<close>

theorem registry_names:
  "fst ` set (TOOL_FUNCTIONS a b c) = {''search_videos'', ''get_videos'', ''get_transcript''}
   \<and> (first_found fs package_path cwd_path = Parsed schema_data \<and>
        py_getitem schema_data ''tools'' = Inr (JArr tools) \<and> (\<forall>t \<in> set tools. named_tool t) \<longrightarrow>
      (\<exists>S. fst (load_tool_schemas fs package_path cwd_path) = Inr S \<and>
           fst ` set S = tool_name ` set tools \<and>
           (names_agree S (TOOL_FUNCTIONS a b c) \<longleftrightarrow>
              tool_name ` set tools = JStr ` {''search_videos'', ''get_videos'', ''get_transcript''})))
   \<and> (first_found fs package_path cwd_path = FileNotFound \<or>
        first_found fs package_path cwd_path = NotJson e \<longrightarrow>
      fst (load_tool_schemas fs package_path cwd_path) = Inr [] \<and>
      \<not> names_agree [] (TOOL_FUNCTIONS a b c))"
proof (intro conjI impI)
  show "fst ` set (TOOL_FUNCTIONS a b c) = {''search_videos'', ''get_videos'', ''get_transcript''}"
    by (rule handler_names)
  show "\<exists>S. fst (load_tool_schemas fs package_path cwd_path) = Inr S \<and>
           fst ` set S = tool_name ` set tools \<and>
           (names_agree S (TOOL_FUNCTIONS a b c) \<longleftrightarrow>
              tool_name ` set tools = JStr ` {''search_videos'', ''get_videos'', ''get_transcript''})"
    if h: "first_found fs package_path cwd_path = Parsed schema_data \<and>
        py_getitem schema_data ''tools'' = Inr (JArr tools) \<and> (\<forall>t \<in> set tools. named_tool t)"
  proof -
    from h tools_by_name_keys [of schema_data tools]
    obtain S where S: "tools_by_name schema_data = Inr S" "fst ` set S = tool_name ` set tools"
      by blast
    have "fst (load_tool_schemas fs package_path cwd_path) = Inr S"
      using h S(1) by (simp add: load_first_found)
    moreover have "names_agree S (TOOL_FUNCTIONS a b c) \<longleftrightarrow>
        tool_name ` set tools = JStr ` {''search_videos'', ''get_videos'', ''get_transcript''}"
      unfolding names_agree_def S(2) handler_names ..
    ultimately show ?thesis using S(2) by blast
  qed
  show "fst (load_tool_schemas fs package_path cwd_path) = Inr []"
    if "first_found fs package_path cwd_path = FileNotFound \<or>
        first_found fs package_path cwd_path = NotJson e"
    using that by (auto simp: load_first_found)
  show "\<not> names_agree [] (TOOL_FUNCTIONS a b c)"
    by (rule names_disagree_empty)
qed

theorem registry_names_witness:
  "(\<exists>S. fst (load_tool_schemas (\<lambda>p. Parsed example_document) ''pkg/tools.json'' ''cwd/tools.json'') = Inr S
        \<and> names_agree S example_registry)
   \<and> fst (load_tool_schemas (\<lambda>p. FileNotFound) ''pkg/tools.json'' ''cwd/tools.json'') = Inr []"
proof -
  have ff: "first_found (\<lambda>p. Parsed example_document) ''pkg/tools.json'' ''cwd/tools.json'' =
      Parsed example_document"
    by (simp add: first_found_def)
  have tools: "py_getitem example_document ''tools'' =
      Inr (JArr [JObj [(''name'', JStr ''search_videos''), (''description'', JStr ''Search'')],
                 JObj [(''name'', JStr ''get_videos''), (''description'', JStr ''Details'')],
                 JObj [(''name'', JStr ''get_transcript''), (''description'', JStr ''Transcript'')]])"
    by (simp add: example_document_def)
  have named: "\<forall>t \<in> set [JObj [(''name'', JStr ''search_videos''), (''description'', JStr ''Search'')],
                 JObj [(''name'', JStr ''get_videos''), (''description'', JStr ''Details'')],
                 JObj [(''name'', JStr ''get_transcript''), (''description'', JStr ''Transcript'')]].
              named_tool t"
    by (simp add: named_tool_def tool_name_def)
  have names: "tool_name ` set [JObj [(''name'', JStr ''search_videos''), (''description'', JStr ''Search'')],
                 JObj [(''name'', JStr ''get_videos''), (''description'', JStr ''Details'')],
                 JObj [(''name'', JStr ''get_transcript''), (''description'', JStr ''Transcript'')]] =
        JStr ` {''search_videos'', ''get_videos'', ''get_transcript''}"
    by (simp add: tool_name_def)
  have nf: "first_found (\<lambda>p. FileNotFound) ''pkg/tools.json'' ''cwd/tools.json'' = FileNotFound"
    by (simp add: first_found_def)
  from registry_names [where fs = "\<lambda>p. Parsed example_document" and package_path = "''pkg/tools.json''"
      and cwd_path = "''cwd/tools.json''" and schema_data = example_document
      and a = returns_none and b = "get_videos_tool example_env" and c = returns_none
      and e = "[]"
      and tools = "[JObj [(''name'', JStr ''search_videos''), (''description'', JStr ''Search'')],
                 JObj [(''name'', JStr ''get_videos''), (''description'', JStr ''Details'')],
                 JObj [(''name'', JStr ''get_transcript''), (''description'', JStr ''Transcript'')]]"]
    ff tools named names
  have 1: "\<exists>S. fst (load_tool_schemas (\<lambda>p. Parsed example_document) ''pkg/tools.json'' ''cwd/tools.json'') = Inr S
        \<and> names_agree S example_registry"
    unfolding example_registry_def by blast
  from registry_names [where fs = "\<lambda>p. FileNotFound" and package_path = "''pkg/tools.json''"
      and cwd_path = "''cwd/tools.json''" and e = "[]"] nf
  have 2: "fst (load_tool_schemas (\<lambda>p. FileNotFound) ''pkg/tools.json'' ''cwd/tools.json'') = Inr []"
    by blast
  from 1 2 show ?thesis by simp
qed


end
